theory Spec2Isabelle
  imports Complex_Main
begin

section \<open>Numbers and small helpers\<close>

text \<open>
  The engine computes with the TypeScript type \<open>number\<close>. It is modelled by the
  real numbers: \<open>Math.min\<close>, \<open>Math.max\<close> and the four operations are the real
  ones, \<open>Math.pow a b\<close> is \<open>a powr b\<close> (every base the engine raises to a power is
  strictly positive: a clamped mass, a clamped metallicity ratio, a luminosity over a
  squared radius, the constant 10), \<open>Math.log10\<close> is the logarithm to base 10 (taken
  only of positive arguments) and \<open>Math.sqrt\<close> is the real square root. Rounding,
  infinities and NaN are outside this model.

  Record fields keep the source's names except where two records share a field name or
  the name is taken: the fields of \<open>InitialStarState\<close> carry the prefix \<open>ini_\<close>, those
  of \<open>StatePoint\<close> the prefix \<open>pt_\<close>, those of \<open>StarEvolutionState\<close> the prefix
  \<open>st_\<close>; \<open>id\<close> and \<open>label\<close> of a phase are \<open>ph_id\<close> and \<open>ph_label\<close>; \<open>start\<close> and
  \<open>end\<close> of a shape are \<open>shape_start\<close> and \<open>shape_end\<close>. The remnant kinds
  \<open>"wd" | "ns" | "bh"\<close> are \<open>WD | NS | BH\<close>.
\<close>

abbreviation Math_pow :: "real \<Rightarrow> real \<Rightarrow> real" where
  "Math_pow a b \<equiv> a powr b"

abbreviation Math_log10 :: "real \<Rightarrow> real" where
  "Math_log10 x \<equiv> log 10 x"

abbreviation Math_sqrt :: "real \<Rightarrow> real" where
  "Math_sqrt x \<equiv> sqrt x"

definition clamp :: "real \<Rightarrow> real \<Rightarrow> real \<Rightarrow> real" where
  "clamp x lo hi = min (max x lo) hi"

definition lerp :: "real \<Rightarrow> real \<Rightarrow> real \<Rightarrow> real" where
  "lerp a b t = a + (b - a) * t"

section \<open>Initial state calculator (starEngine.ts)\<close>

record StarParams =
  mass :: real
  metallicity :: real
  cnoFraction :: real

record InitialStarState =
  ini_X :: real
  ini_Y :: real
  ini_Z :: real
  ini_Z_cno :: real
  ini_Z_other :: real
  ini_L_ms :: real
  ini_R_ms :: real
  ini_T_eff :: real
  ini_logL :: real
  ini_logT :: real

definition Z_sun :: real where
  "Z_sun = 0.02"

definition T_sun :: real where
  "T_sun = 5772"

text \<open>The broken power law for the base luminosity.\<close>

definition L_ms_base :: "real \<Rightarrow> real" where
  "L_ms_base M =
     (if M < 0.5 then Math_pow M 2.3
      else if M < 2 then Math_pow M 4.0
      else Math_pow M 3.5)"

definition Z_rel :: "real \<Rightarrow> real" where
  "Z_rel Z = (if Z_sun > 0 then clamp (Z / Z_sun) 0.1 3.0 else 1.0)"

text \<open>Luminosity and temperature as they stand just before the CNO block.\<close>

definition L_ms_preCNO :: "real \<Rightarrow> real \<Rightarrow> real" where
  "L_ms_preCNO M Z =
     (let L_Z_factor = Math_pow (Z_rel Z) (-0.25)
      in L_ms_base M * L_Z_factor)"

definition T_eff_preCNO :: "real \<Rightarrow> real \<Rightarrow> real" where
  "T_eff_preCNO M Z =
     (let R_ms = Math_pow M 0.8;
          T_base = T_sun * Math_pow (L_ms_preCNO M Z / (R_ms * R_ms)) 0.25;
          metallicityExponent = - 0.10
      in T_base * Math_pow (Z_rel Z) metallicityExponent)"

definition massWeight :: "real \<Rightarrow> real" where
  "massWeight M = clamp ((M - 1.3) / (5.0 - 1.3)) 0 1"

definition L_cnoBoost :: "real \<Rightarrow> real \<Rightarrow> real" where
  "L_cnoBoost M fCNO =
     (let fCNO_ref = 0.3; deltaCNO = fCNO - fCNO_ref
      in 1 + 0.4 * deltaCNO * massWeight M)"

definition T_cnoBoost :: "real \<Rightarrow> real \<Rightarrow> real" where
  "T_cnoBoost M fCNO =
     (let fCNO_ref = 0.3; deltaCNO = fCNO - fCNO_ref
      in 1 + 0.15 * deltaCNO * massWeight M)"

definition computeInitialStar :: "StarParams \<Rightarrow> InitialStarState" where
  "computeInitialStar params =
     (let M = clamp (mass params) 0.1 50;
          Z = clamp (metallicity params) 0.0 0.04;
          fCNO = clamp (cnoFraction params) 0 1;
          Z_cno = Z * fCNO;
          Z_other = Z * (1 - fCNO);
          Y_p = 0.248;
          dYdZ = 1.7;
          Y = clamp (Y_p + dYdZ * Z) 0.22 0.40;
          X = max 0 (1 - Y - Z);
          R_ms = Math_pow M 0.8;
          L_ms = (if M > 1.3 then L_ms_preCNO M Z * L_cnoBoost M fCNO
                  else L_ms_preCNO M Z);
          T_eff = (if M > 1.3 then T_eff_preCNO M Z * T_cnoBoost M fCNO
                   else T_eff_preCNO M Z);
          logL = Math_log10 L_ms;
          logT = Math_log10 T_eff
      in \<lparr> ini_X = X, ini_Y = Y, ini_Z = Z, ini_Z_cno = Z_cno, ini_Z_other = Z_other,
           ini_L_ms = L_ms, ini_R_ms = R_ms, ini_T_eff = T_eff,
           ini_logL = logL, ini_logT = logT \<rparr>)"

section \<open>Evolution timeline builder (starEvolutionEngine.ts)\<close>

datatype RemnantKind = WD | NS | BH

datatype BasePhaseId = ms | subgiant | rgb | hb | agb | wd

datatype EvolutionPhaseId = Base BasePhaseId | wdFinal | nsFinal | bhFinal

record EvolutionPhase =
  ph_id :: EvolutionPhaseId
  ph_label :: string
  tStartMyr :: real
  tEndMyr :: real
  durationMyr :: real
  fracStart :: real
  fracEnd :: real

record EvolutionTimeline =
  totalLifetimeMyr :: real
  phases :: "EvolutionPhase list"
  initial :: InitialStarState
  remnant :: RemnantKind

definition clampMass :: "real \<Rightarrow> real" where
  "clampMass M = min (max M 0.1) 50"

definition mainSequenceLifetimeGyrFromInitial :: "InitialStarState \<Rightarrow> StarParams \<Rightarrow> real" where
  "mainSequenceLifetimeGyrFromInitial ini params =
     (let M = clampMass (mass params);
          Z = min (max (metallicity params) 0.0001) 0.04;
          X = ini_X ini;
          L_ms = max (ini_L_ms ini) (1 / 10000);
          tSunGyr = 10;
          X_sun = 0.70;
          L_sun = 1.0;
          fuelFactor = X / X_sun;
          burnRateFactor = L_ms / L_sun;
          massFactor = M;
          tGyr0 = tSunGyr * fuelFactor * (massFactor / burnRateFactor);
          Zsun = 0.02;
          Zrel = (if Zsun > (0::real) then Z / Zsun else 1);
          tGyr1 = tGyr0 * Math_pow Zrel 0.2;
          tMinGyr = 0.003;
          tMaxGyr = 200
      in min (max tGyr1 tMinGyr) tMaxGyr)"

definition tMsMyr_of :: "StarParams \<Rightarrow> real" where
  "tMsMyr_of params =
     mainSequenceLifetimeGyrFromInitial (computeInitialStar params) params * 1000"

definition uStruct_of :: "real \<Rightarrow> real" where
  "uStruct_of M =
     (let Mstruct = min (max M 0.5) 50;
          logMinStruct = Math_log10 0.5;
          logMaxStruct = Math_log10 50
      in min (max ((Math_log10 Mstruct - logMinStruct) / (logMaxStruct - logMinStruct)) 0) 1)"

text \<open>The local closure \<open>lerp\<close> of \<open>computeEvolutionTimeline\<close>, with \<open>uStruct\<close> explicit.\<close>

definition lerp_u :: "real \<Rightarrow> real \<Rightarrow> real \<Rightarrow> real" where
  "lerp_u uStruct low high = low + (high - low) * uStruct"

text \<open>The record \<open>durations\<close>, keyed by base phase.\<close>

definition durations_of :: "StarParams \<Rightarrow> BasePhaseId \<Rightarrow> real" where
  "durations_of params =
     (let M = clampMass (mass params);
          tMsMyr = tMsMyr_of params;
          uStruct = uStruct_of M;
          fSub = lerp_u uStruct 0.05 0.01;
          fRGB = lerp_u uStruct 0.10 0.015;
          fHB = lerp_u uStruct 0.10 0.02;
          fAGB = lerp_u uStruct 0.02 0.005;
          rawPostSum = fSub + fRGB + fHB + fAGB;
          targetPostFrac = lerp_u uStruct 0.27 0.15;
          scale = targetPostFrac / rawPostSum;
          tSub = fSub * scale * tMsMyr;
          tRGB = fRGB * scale * tMsMyr;
          tHB = fHB * scale * tMsMyr;
          tAGB = fAGB * scale * tMsMyr;
          rawWD = 10 * tMsMyr * Math_pow M (- 0.7);
          tWD = min rawWD (5 * tMsMyr)
      in (\<lambda>k. case k of ms \<Rightarrow> tMsMyr | subgiant \<Rightarrow> tSub | rgb \<Rightarrow> tRGB
                       | hb \<Rightarrow> tHB | agb \<Rightarrow> tAGB | wd \<Rightarrow> tWD))"

text \<open>\<open>Object.values(durations)\<close>: the values in insertion order.\<close>

definition Object_values :: "(BasePhaseId \<Rightarrow> real) \<Rightarrow> real list" where
  "Object_values durations =
     [durations ms, durations subgiant, durations rgb, durations hb, durations agb, durations wd]"

definition orderedBase :: "(BasePhaseId \<times> string) list" where
  "orderedBase =
     [(ms, ''Main sequence''), (subgiant, ''Subgiant''), (rgb, ''Red giant branch''),
      (hb, ''Helium burning''), (agb, ''Asymptotic giant branch'')]"

text \<open>
  One \<open>phases.push\<close>, with the cursor: the body of the loop over \<open>orderedBase\<close> and the
  block that pushes the final phase are the same statements.
\<close>

definition pushPhase ::
  "real \<Rightarrow> EvolutionPhaseId \<Rightarrow> string \<Rightarrow> real \<Rightarrow> real \<times> EvolutionPhase list
     \<Rightarrow> real \<times> EvolutionPhase list" where
  "pushPhase totalMyr i label dt st =
     (let cursor = fst st;
          tStart = cursor;
          tEnd = cursor + dt;
          fracStart' = tStart / totalMyr;
          fracEnd' = tEnd / totalMyr
      in (tEnd, snd st @ [\<lparr> ph_id = i, ph_label = label, tStartMyr = tStart, tEndMyr = tEnd,
                             durationMyr = dt, fracStart = fracStart', fracEnd = fracEnd' \<rparr>]))"

fun pushBasePhases ::
  "real \<Rightarrow> (BasePhaseId \<Rightarrow> real) \<Rightarrow> (BasePhaseId \<times> string) list
     \<Rightarrow> real \<times> EvolutionPhase list \<Rightarrow> real \<times> EvolutionPhase list" where
  "pushBasePhases totalMyr durations [] st = st"
| "pushBasePhases totalMyr durations ((i, label) # rest) st =
     pushBasePhases totalMyr durations rest (pushPhase totalMyr (Base i) label (durations i) st)"

definition finalPhase :: "RemnantKind \<Rightarrow> EvolutionPhaseId \<times> string" where
  "finalPhase r =
     (if r = WD then (wdFinal, ''White dwarf cooling'')
      else if r = NS then (nsFinal, ''Neutron star cooling'')
      else (bhFinal, ''Black hole remnant''))"

definition computeEvolutionTimeline :: "StarParams \<Rightarrow> EvolutionTimeline" where
  "computeEvolutionTimeline params =
     (let M = clampMass (mass params);
          remnant' = (if M < 8 then WD else if M < 25 then NS else BH);
          initial' = computeInitialStar params;
          durations = durations_of params;
          totalLifetimeMyr' = foldl (\<lambda>sum t. sum + t) 0 (Object_values durations);
          (finalPhaseId, finalLabel) = finalPhase remnant';
          st0 = (0, []);
          st1 = pushBasePhases totalLifetimeMyr' durations orderedBase st0;
          st2 = pushPhase totalLifetimeMyr' finalPhaseId finalLabel (durations wd) st1
      in \<lparr> totalLifetimeMyr = totalLifetimeMyr', phases = snd st2,
           initial = initial', remnant = remnant' \<rparr>)"

section \<open>Evolution curve interpolator (starEvolutionCurves.ts)\<close>

record StatePoint =
  pt_L :: real
  pt_R :: real
  pt_T_eff :: real

record PhaseShape =
  shape_start :: StatePoint
  shape_end :: StatePoint

type_synonym ShapePhaseId = BasePhaseId

record StarEvolutionState =
  st_tMyr :: real
  st_fracTotal :: real
  st_phaseId :: EvolutionPhaseId
  st_phaseLabel :: string
  st_phaseFrac :: real
  st_remnant :: RemnantKind
  st_L :: real
  st_R :: real
  st_T_eff :: real
  st_logL :: real
  st_logT :: real

definition safePhaseFraction :: "EvolutionPhase \<Rightarrow> real \<Rightarrow> real" where
  "safePhaseFraction phase tMyr =
     (let dt = tEndMyr phase - tStartMyr phase
      in if dt \<le> 0 then 0 else clamp ((tMyr - tStartMyr phase) / dt) 0 1)"

definition T_from_LR :: "real \<Rightarrow> real \<Rightarrow> real" where
  "T_from_LR L R = (let T_sun' = 5772 in T_sun' * Math_pow (L / (R * R)) 0.25)"

definition R_from_LT :: "real \<Rightarrow> real \<Rightarrow> real" where
  "R_from_LT L T = (let T_sun' = 5772; x = T / T_sun' in Math_sqrt L / (x * x))"

subsection \<open>Keypoints\<close>

text \<open>
  The local constants of \<open>buildPhaseShapes\<close>, each as a function of the locals it is
  computed from: \<open>M\<close>, \<open>Zrel\<close>, and \<open>L0\<close>, \<open>R0\<close>, \<open>T0\<close>, \<open>logL_ms\<close> read from the
  initial state.
\<close>

definition msBrightening :: "real \<Rightarrow> real" where
  "msBrightening M = clamp (0.3 * Math_pow (1 / M) 0.3) 0.05 0.4"

definition msRadiusGrowth :: "real \<Rightarrow> real" where
  "msRadiusGrowth M = clamp (0.15 * Math_pow (1 / M) 0.2) 0.03 0.2"

definition L_msEnd :: "real \<Rightarrow> real \<Rightarrow> real" where
  "L_msEnd M L0 = L0 * (1 + msBrightening M)"

definition R_msEnd :: "real \<Rightarrow> real \<Rightarrow> real" where
  "R_msEnd M R0 = R0 * (1 + msRadiusGrowth M)"

definition T_msEnd :: "real \<Rightarrow> real \<Rightarrow> real \<Rightarrow> real \<Rightarrow> real" where
  "T_msEnd M Zrel L0 R0 = T_from_LR (L_msEnd M L0) (R_msEnd M R0) * Math_pow Zrel (- 0.03)"

definition L_sgEnd :: "real \<Rightarrow> real \<Rightarrow> real" where
  "L_sgEnd M L0 = (let sgLFactor = 1.5 + 1.0 * Math_pow M 0.3 in L_msEnd M L0 * sgLFactor)"

definition R_sgEnd :: "real \<Rightarrow> real \<Rightarrow> real" where
  "R_sgEnd M R0 = (let sgRFactor = 3.0 + 2.0 * Math_pow M 0.2 in R_msEnd M R0 * sgRFactor)"

definition T_sgEnd :: "real \<Rightarrow> real \<Rightarrow> real \<Rightarrow> real \<Rightarrow> real" where
  "T_sgEnd M Zrel L0 R0 = T_from_LR (L_sgEnd M L0) (R_sgEnd M R0) * Math_pow Zrel (- 0.05)"

definition logL_rgbTip :: "real \<Rightarrow> real \<Rightarrow> real" where
  "logL_rgbTip M logL_ms =
     (let logL_rgbRaw = 4 + 1.3 * Math_log10 M
      in clamp logL_rgbRaw (logL_ms + 0.8) 5.8)"

definition L_rgbTip :: "real \<Rightarrow> real \<Rightarrow> real" where
  "L_rgbTip M logL_ms = Math_pow 10 (logL_rgbTip M logL_ms)"

definition R_rgbTip :: "real \<Rightarrow> real \<Rightarrow> real" where
  "R_rgbTip M R0 = (let rgbRFactor = 50 * Math_pow M 0.6 in R0 * rgbRFactor)"

definition T_rgbNominal :: "real \<Rightarrow> real" where
  "T_rgbNominal M = clamp (4100 - 400 * Math_log10 M) 3400 4600"

definition T_rgbTip :: "real \<Rightarrow> real \<Rightarrow> real" where
  "T_rgbTip M Zrel = T_rgbNominal M * Math_pow Zrel (- 0.05)"

definition L_hb :: "real \<Rightarrow> real \<Rightarrow> real" where
  "L_hb M logL_ms = L_rgbTip M logL_ms * clamp (0.25 + 0.15 * Math_pow M (- 0.3)) 0.2 0.5"

definition R_hb :: "real \<Rightarrow> real \<Rightarrow> real" where
  "R_hb M R0 = R_rgbTip M R0 * clamp (0.15 + 0.1 * Math_pow M (- 0.2)) 0.08 0.25"

definition T_hb :: "real \<Rightarrow> real \<Rightarrow> real \<Rightarrow> real \<Rightarrow> real" where
  "T_hb M Zrel R0 logL_ms = T_from_LR (L_hb M logL_ms) (R_hb M R0) * Math_pow Zrel (- 0.04)"

definition logL_agb :: "real \<Rightarrow> real \<Rightarrow> real" where
  "logL_agb M logL_ms =
     (let logL_agbRaw = logL_rgbTip M logL_ms + clamp (0.15 + 0.25 * Math_log10 M) 0.1 0.5
      in clamp logL_agbRaw (logL_rgbTip M logL_ms + 0.05) 6.2)"

definition L_agb :: "real \<Rightarrow> real \<Rightarrow> real" where
  "L_agb M logL_ms = Math_pow 10 (logL_agb M logL_ms)"

definition R_agb :: "real \<Rightarrow> real \<Rightarrow> real" where
  "R_agb M R0 = R_rgbTip M R0 * clamp (1.3 + 0.4 * Math_pow M 0.2) 1.2 2.2"

definition T_agb :: "real \<Rightarrow> real \<Rightarrow> real" where
  "T_agb M Zrel = (let T_agbNominal = T_rgbNominal M * 0.9 in T_agbNominal * Math_pow Zrel (- 0.05))"

definition msStart :: "real \<Rightarrow> real \<Rightarrow> real \<Rightarrow> StatePoint" where
  "msStart L0 R0 T0 = \<lparr> pt_L = L0, pt_R = R0, pt_T_eff = T0 \<rparr>"

definition msEnd :: "real \<Rightarrow> real \<Rightarrow> real \<Rightarrow> real \<Rightarrow> StatePoint" where
  "msEnd M Zrel L0 R0 =
     \<lparr> pt_L = L_msEnd M L0, pt_R = R_msEnd M R0, pt_T_eff = T_msEnd M Zrel L0 R0 \<rparr>"

definition sgEnd :: "real \<Rightarrow> real \<Rightarrow> real \<Rightarrow> real \<Rightarrow> StatePoint" where
  "sgEnd M Zrel L0 R0 =
     \<lparr> pt_L = L_sgEnd M L0, pt_R = R_sgEnd M R0, pt_T_eff = T_sgEnd M Zrel L0 R0 \<rparr>"

definition rgbEnd :: "real \<Rightarrow> real \<Rightarrow> real \<Rightarrow> real \<Rightarrow> StatePoint" where
  "rgbEnd M Zrel R0 logL_ms =
     \<lparr> pt_L = L_rgbTip M logL_ms, pt_R = R_rgbTip M R0, pt_T_eff = T_rgbTip M Zrel \<rparr>"

definition hbEnd :: "real \<Rightarrow> real \<Rightarrow> real \<Rightarrow> real \<Rightarrow> StatePoint" where
  "hbEnd M Zrel R0 logL_ms =
     \<lparr> pt_L = L_hb M logL_ms, pt_R = R_hb M R0, pt_T_eff = T_hb M Zrel R0 logL_ms \<rparr>"

definition agbEnd :: "real \<Rightarrow> real \<Rightarrow> real \<Rightarrow> real \<Rightarrow> StatePoint" where
  "agbEnd M Zrel R0 logL_ms =
     \<lparr> pt_L = L_agb M logL_ms, pt_R = R_agb M R0, pt_T_eff = T_agb M Zrel \<rparr>"

text \<open>Neutron-star progenitors: the red-supergiant endpoint.\<close>

definition rsgEnd :: "real \<Rightarrow> real \<Rightarrow> StatePoint" where
  "rsgEnd M logL_ms =
     (let logL_agb' = Math_log10 (L_agb M logL_ms);
          logL_core = max logL_agb' 4.5;
          L_core = Math_pow 10 logL_core;
          T_rsg = clamp (3600 + 200 * Math_log10 M) 3400 4300;
          R_rsg = R_from_LT L_core T_rsg
      in \<lparr> pt_L = L_core, pt_R = R_rsg, pt_T_eff = T_rsg \<rparr>)"

text \<open>Black-hole progenitors: the Wolf-Rayet endpoint.\<close>

definition wrEnd :: "real \<Rightarrow> real \<Rightarrow> StatePoint" where
  "wrEnd M logL_ms =
     (let logL_core = max (Math_log10 (L_agb M logL_ms)) 4.5;
          logL_wr = clamp (logL_core + 0.3) 5.2 6.2;
          L_wr = Math_pow 10 logL_wr;
          T_wr = clamp (50000 * Math_pow (M / 25) 0.15) 40000 90000;
          R_wr = R_from_LT L_wr T_wr
      in \<lparr> pt_L = L_wr, pt_R = R_wr, pt_T_eff = T_wr \<rparr>)"

text \<open>White dwarfs: the cooling track has a start point of its own.\<close>

definition R_wd :: "real \<Rightarrow> real" where
  "R_wd M = 0.015 * Math_pow M (- 0.2)"

definition wdStart :: "real \<Rightarrow> real \<Rightarrow> StatePoint" where
  "wdStart M L0 =
     (let L_wdStart = L0 * clamp (0.08 * Math_pow M 0.7) 0.02 0.3;
          T_wdStart = 25000 * Math_pow M 0.05
      in \<lparr> pt_L = L_wdStart, pt_R = R_wd M, pt_T_eff = T_wdStart \<rparr>)"

definition wdEnd :: "real \<Rightarrow> real \<Rightarrow> real \<Rightarrow> StatePoint" where
  "wdEnd M Zrel L0 =
     (let L_wdEnd = L0 * clamp (0.0002 * Math_pow M 0.3) 0.00005 0.0005;
          T_wdEnd = 4500 * Math_pow Zrel (- 0.05)
      in \<lparr> pt_L = L_wdEnd, pt_R = R_wd M, pt_T_eff = T_wdEnd \<rparr>)"

subsection \<open>The keypoint table\<close>

text \<open>
  The three returned object literals are written out as in the source, one per remnant
  branch. The local \<open>fCNO\<close> of \<open>buildPhaseShapes\<close> is computed there and never
  read, so it has no counterpart here.
\<close>

definition buildPhaseShapes ::
  "StarParams \<Rightarrow> InitialStarState \<Rightarrow> RemnantKind \<Rightarrow> ShapePhaseId \<Rightarrow> PhaseShape" where
  "buildPhaseShapes params ini rem =
     (let M = clamp (mass params) 0.1 50;
          Z = clamp (metallicity params) 0.0 0.04;
          L0 = ini_L_ms ini;
          R0 = ini_R_ms ini;
          T0 = ini_T_eff ini;
          logL_ms = ini_logL ini;
          Zsun = 0.02;
          Zrel = (if Zsun > (0::real) then clamp (Z / Zsun) 0.1 3.0 else 1.0);
          isCoreCollapse = (rem \<noteq> WD)
      in if isCoreCollapse then
           (if rem = NS then
              (\<lambda>k. case k of
                 ms \<Rightarrow> \<lparr> shape_start = msStart L0 R0 T0, shape_end = msEnd M Zrel L0 R0 \<rparr>
               | subgiant \<Rightarrow> \<lparr> shape_start = msEnd M Zrel L0 R0, shape_end = sgEnd M Zrel L0 R0 \<rparr>
               | rgb \<Rightarrow> \<lparr> shape_start = sgEnd M Zrel L0 R0, shape_end = rgbEnd M Zrel R0 logL_ms \<rparr>
               | hb \<Rightarrow> \<lparr> shape_start = rgbEnd M Zrel R0 logL_ms, shape_end = hbEnd M Zrel R0 logL_ms \<rparr>
               | agb \<Rightarrow> \<lparr> shape_start = hbEnd M Zrel R0 logL_ms, shape_end = agbEnd M Zrel R0 logL_ms \<rparr>
               | wd \<Rightarrow> \<lparr> shape_start = agbEnd M Zrel R0 logL_ms, shape_end = rsgEnd M logL_ms \<rparr>)
            else
              (\<lambda>k. case k of
                 ms \<Rightarrow> \<lparr> shape_start = msStart L0 R0 T0, shape_end = msEnd M Zrel L0 R0 \<rparr>
               | subgiant \<Rightarrow> \<lparr> shape_start = msEnd M Zrel L0 R0, shape_end = sgEnd M Zrel L0 R0 \<rparr>
               | rgb \<Rightarrow> \<lparr> shape_start = sgEnd M Zrel L0 R0, shape_end = rgbEnd M Zrel R0 logL_ms \<rparr>
               | hb \<Rightarrow> \<lparr> shape_start = rgbEnd M Zrel R0 logL_ms, shape_end = hbEnd M Zrel R0 logL_ms \<rparr>
               | agb \<Rightarrow> \<lparr> shape_start = hbEnd M Zrel R0 logL_ms, shape_end = agbEnd M Zrel R0 logL_ms \<rparr>
               | wd \<Rightarrow> \<lparr> shape_start = agbEnd M Zrel R0 logL_ms, shape_end = wrEnd M logL_ms \<rparr>))
         else
           (\<lambda>k. case k of
              ms \<Rightarrow> \<lparr> shape_start = msStart L0 R0 T0, shape_end = msEnd M Zrel L0 R0 \<rparr>
            | subgiant \<Rightarrow> \<lparr> shape_start = msEnd M Zrel L0 R0, shape_end = sgEnd M Zrel L0 R0 \<rparr>
            | rgb \<Rightarrow> \<lparr> shape_start = sgEnd M Zrel L0 R0, shape_end = rgbEnd M Zrel R0 logL_ms \<rparr>
            | hb \<Rightarrow> \<lparr> shape_start = rgbEnd M Zrel R0 logL_ms, shape_end = hbEnd M Zrel R0 logL_ms \<rparr>
            | agb \<Rightarrow> \<lparr> shape_start = hbEnd M Zrel R0 logL_ms, shape_end = agbEnd M Zrel R0 logL_ms \<rparr>
            | wd \<Rightarrow> \<lparr> shape_start = wdStart M L0, shape_end = wdEnd M Zrel L0 \<rparr>))"

fun shapeKeyForPhase :: "EvolutionPhaseId \<Rightarrow> ShapePhaseId" where
  "shapeKeyForPhase wdFinal = wd"
| "shapeKeyForPhase nsFinal = wd"
| "shapeKeyForPhase bhFinal = wd"
| "shapeKeyForPhase (Base k) = k"

subsection \<open>Sampling\<close>

text \<open>The scan for the active phase: the first phase whose closed interval holds the time.\<close>

fun locateActive :: "real \<Rightarrow> EvolutionPhase list \<Rightarrow> EvolutionPhase option" where
  "locateActive tMyr [] = None"
| "locateActive tMyr (ph # rest) =
     (if tMyr \<ge> tStartMyr ph \<and> tMyr \<le> tEndMyr ph then Some ph else locateActive tMyr rest)"

text \<open>The scan followed by the pin to the last phase.\<close>

definition pinToLast :: "EvolutionPhase option \<Rightarrow> EvolutionPhase list \<Rightarrow> EvolutionPhase option" where
  "pinToLast active phs =
     (if active = None \<and> length phs > 0 then Some (phs ! (length phs - 1)) else active)"

definition getStarStateAtTime ::
  "StarParams \<Rightarrow> EvolutionTimeline \<Rightarrow> real \<Rightarrow> StarEvolutionState" where
  "getStarStateAtTime params timeline tMyrRaw =
     (let ini = computeInitialStar params;
          rem = remnant timeline;
          totalMyr = totalLifetimeMyr timeline;
          tMyr = clamp tMyrRaw 0 totalMyr;
          fracTotal = (if totalMyr > 0 then tMyr / totalMyr else 0)
      in case pinToLast (locateActive tMyr (phases timeline)) (phases timeline) of
           None \<Rightarrow>
             \<lparr> st_tMyr = 0, st_fracTotal = 0, st_phaseId = Base ms,
               st_phaseLabel = ''Main sequence'', st_phaseFrac = 0, st_remnant = rem,
               st_L = ini_L_ms ini, st_R = ini_R_ms ini, st_T_eff = ini_T_eff ini,
               st_logL = ini_logL ini, st_logT = ini_logT ini \<rparr>
         | Some active \<Rightarrow>
             (let phaseFrac = safePhaseFraction active tMyr;
                  shapes = buildPhaseShapes params ini rem;
                  key = shapeKeyForPhase (ph_id active);
                  shape = shapes key;
                  L = lerp (pt_L (shape_start shape)) (pt_L (shape_end shape)) phaseFrac;
                  R = lerp (pt_R (shape_start shape)) (pt_R (shape_end shape)) phaseFrac;
                  T_eff = lerp (pt_T_eff (shape_start shape)) (pt_T_eff (shape_end shape)) phaseFrac;
                  logL = Math_log10 (max L (1 / 1000000));
                  logT = Math_log10 (max T_eff 10)
              in \<lparr> st_tMyr = tMyr, st_fracTotal = fracTotal, st_phaseId = ph_id active,
                    st_phaseLabel = ph_label active, st_phaseFrac = phaseFrac, st_remnant = rem,
                    st_L = L, st_R = R, st_T_eff = T_eff, st_logL = logL, st_logT = logT \<rparr>))"

section \<open>Auxiliary notions for the proofs\<close>

text \<open>The sum of the four raw post-main-sequence fractions, and the rescaling factor.\<close>

definition rawPostSum_of :: "real \<Rightarrow> real" where
  "rawPostSum_of u =
     lerp_u u 0.05 0.01 + lerp_u u 0.10 0.015 + lerp_u u 0.10 0.02 + lerp_u u 0.02 0.005"

definition scale_of :: "real \<Rightarrow> real" where
  "scale_of u = lerp_u u 0.27 0.15 / rawPostSum_of u"

text \<open>A phase as \<open>pushPhase\<close> builds it for the timeline of \<open>p\<close>, from its start and length.\<close>

definition phaseAt :: "StarParams \<Rightarrow> EvolutionPhaseId \<Rightarrow> string \<Rightarrow> real \<Rightarrow> real \<Rightarrow> EvolutionPhase" where
  "phaseAt p i label t0 dt =
     \<lparr> ph_id = i, ph_label = label, tStartMyr = t0, tEndMyr = t0 + dt, durationMyr = dt,
       fracStart = t0 / totalLifetimeMyr (computeEvolutionTimeline p),
       fracEnd = (t0 + dt) / totalLifetimeMyr (computeEvolutionTimeline p) \<rparr>"

text \<open>The near-solar star of the spec's scenario, used to instantiate the theorems.\<close>

definition solarParams :: StarParams where
  "solarParams = \<lparr> mass = 1, metallicity = 0.02, cnoFraction = 0.3 \<rparr>"


text \<open>
  The main-sequence lifetime in Gyr before its final clamp to \<open>[0.003, 200]\<close>: the value
  of \<open>tGyr\<close> after the metallicity factor in \<open>mainSequenceLifetimeGyrFromInitial\<close>.
\<close>

definition rawLifetimeGyr :: "InitialStarState \<Rightarrow> StarParams \<Rightarrow> real" where
  "rawLifetimeGyr ini params =
     10 * (ini_X ini / 0.70) * (clampMass (mass params) / (max (ini_L_ms ini) (1 / 10000) / 1.0))
        * Math_pow (min (max (metallicity params) 0.0001) 0.04 / 0.02) 0.2"

section \<open>Binary64 arithmetic\<close>

text \<open>
  The source's \<open>number\<close> is an IEEE 754 binary64 value, and \<open>+\<close>, \<open>-\<close>, \<open>*\<close>, \<open>/\<close> round
  their exact result to the nearest binary64 number, ties to the even significand.
  \<open>fl\<close> is that rounding on the reals, with 53 significant bits; the exponent range is
  not bounded here (no overflow to infinity, no subnormal numbers), which the engine's
  values, all between \<open>1e-5\<close> and \<open>1e7\<close> in magnitude or zero, never leave. A decimal
  literal \<open>c\<close> of the source denotes \<open>fl c\<close>. \<open>Math.pow\<close> and \<open>Math.log10\<close> are
  implementation-approximated in ECMAScript; they are taken as correctly rounded, and the
  evaluations below read them only where every implementation is exact
  (\<open>pow(0.5, 4) = 0.0625\<close>, \<open>pow(1, y) = 1\<close>, and a value subtracted from itself).

  The definitions with suffix \<open>64\<close> repeat, operation by operation, the source functions
  whose real-number models carry the same name without the suffix. They serve the two
  claims that speak of exact equality of computed numbers.
\<close>

definition fexp :: "real \<Rightarrow> int" where
  "fexp x = \<lfloor>log 2 \<bar>x\<bar>\<rfloor>"

definition rne :: "real \<Rightarrow> int" where
  "rne x =
     (let f = \<lfloor>x\<rfloor>; r = x - of_int f
      in if r < 1 / 2 then f else if 1 / 2 < r then f + 1 else if even f then f else f + 1)"

definition fl :: "real \<Rightarrow> real" where
  "fl x = (if x = 0 then 0 else of_int (rne (x / 2 powi (fexp x - 52))) * 2 powi (fexp x - 52))"

definition add64 :: "real \<Rightarrow> real \<Rightarrow> real" where
  "add64 a b = fl (a + b)"

definition sub64 :: "real \<Rightarrow> real \<Rightarrow> real" where
  "sub64 a b = fl (a - b)"

definition mul64 :: "real \<Rightarrow> real \<Rightarrow> real" where
  "mul64 a b = fl (a * b)"

definition div64 :: "real \<Rightarrow> real \<Rightarrow> real" where
  "div64 a b = fl (a / b)"



text \<open>\<open>lerp\<close> of starEvolutionCurves.ts: \<open>a + (b - a) * t\<close>.\<close>

definition lerp64 :: "real \<Rightarrow> real \<Rightarrow> real \<Rightarrow> real" where
  "lerp64 a b t = add64 a (mul64 (sub64 b a) t)"

text \<open>\<open>safePhaseFraction\<close> of starEvolutionCurves.ts.\<close>

definition safePhaseFraction64 :: "EvolutionPhase \<Rightarrow> real \<Rightarrow> real" where
  "safePhaseFraction64 phase tMyr =
     (let dt = sub64 (tEndMyr phase) (tStartMyr phase)
      in if dt \<le> 0 then 0 else clamp (div64 (sub64 tMyr (tStartMyr phase)) dt) 0 1)"










text \<open>The unit roundoff of binary64.\<close>

definition u64 :: real where
  "u64 = 1 / 2 ^ 53"


section \<open>The initial state\<close>

lemma composition_closure:
  "ini_X (computeInitialStar p) + ini_Y (computeInitialStar p) + ini_Z (computeInitialStar p) = 1"
  by (simp add: computeInitialStar_def Let_def clamp_def)

lemma metal_partition:
  "ini_Z_cno (computeInitialStar p) + ini_Z_other (computeInitialStar p)
     = ini_Z (computeInitialStar p)"
  by (simp add: computeInitialStar_def Let_def algebra_simps)

lemma ini_Z_clamped: "ini_Z (computeInitialStar p) = clamp (metallicity p) 0 0.04"
  by (simp add: computeInitialStar_def Let_def)

text \<open>
  C4. For every \<open>StarParams\<close> the initial state has \<open>X + Y + Z = 1\<close> and
  \<open>Z_cno + Z_other = Z\<close>, each within \<open>1e-9\<close>, where \<open>Z\<close> is the metallicity clamped
  to \<open>[0, 0.04]\<close>. (Over the reals both sums are exact: lemmas \<open>composition_closure\<close>
  and \<open>metal_partition\<close>.)
\<close>

theorem C4_composition_closure:
  "\<bar>ini_X (computeInitialStar p) + ini_Y (computeInitialStar p) + ini_Z (computeInitialStar p) - 1\<bar>
      \<le> 1 / 10 ^ 9
   \<and> \<bar>ini_Z_cno (computeInitialStar p) + ini_Z_other (computeInitialStar p)
        - ini_Z (computeInitialStar p)\<bar> \<le> 1 / 10 ^ 9
   \<and> ini_Z (computeInitialStar p) = clamp (metallicity p) 0 0.04"
proof -
  have "ini_X (computeInitialStar p) + ini_Y (computeInitialStar p)
          + ini_Z (computeInitialStar p) - 1 = 0"
    by (simp add: composition_closure)
  moreover have "ini_Z_cno (computeInitialStar p) + ini_Z_other (computeInitialStar p)
          - ini_Z (computeInitialStar p) = 0"
    by (simp add: metal_partition)
  ultimately show ?thesis
    by (simp only: ini_Z_clamped [symmetric]) simp
qed

theorem C4_composition_closure_witness:
  "\<bar>ini_X (computeInitialStar solarParams) + ini_Y (computeInitialStar solarParams)
      + ini_Z (computeInitialStar solarParams) - 1\<bar> \<le> 1 / 10 ^ 9
   \<and> ini_Z (computeInitialStar solarParams) = 0.02"
  using C4_composition_closure [of solarParams]
  by (simp add: solarParams_def clamp_def)

subsection \<open>The CNO correction\<close>

lemma massWeight_bounds: "0 \<le> massWeight M \<and> massWeight M \<le> 1"
  by (simp add: massWeight_def clamp_def)

lemma massWeight_linear: "1.3 \<le> M \<Longrightarrow> M \<le> 5 \<Longrightarrow> massWeight M = (M - 1.3) / (5 - 1.3)"
  by (simp add: massWeight_def clamp_def min_def max_def)

lemma massWeight_above: "5 \<le> M \<Longrightarrow> massWeight M = 1"
  by (simp add: massWeight_def clamp_def min_def max_def)

lemma cno_blind_below:
  assumes "mass p = mass q" "metallicity p = metallicity q" "clamp (mass p) 0.1 50 \<le> 1.3"
  shows "ini_L_ms (computeInitialStar p) = ini_L_ms (computeInitialStar q)
       \<and> ini_R_ms (computeInitialStar p) = ini_R_ms (computeInitialStar q)
       \<and> ini_T_eff (computeInitialStar p) = ini_T_eff (computeInitialStar q)
       \<and> ini_logL (computeInitialStar p) = ini_logL (computeInitialStar q)
       \<and> ini_logT (computeInitialStar p) = ini_logT (computeInitialStar q)"
  using assms by (simp add: computeInitialStar_def Let_def)

lemma cno_blind_composition:
  assumes "metallicity p = metallicity q"
  shows "ini_X (computeInitialStar p) = ini_X (computeInitialStar q)
       \<and> ini_Y (computeInitialStar p) = ini_Y (computeInitialStar q)
       \<and> ini_Z (computeInitialStar p) = ini_Z (computeInitialStar q)"
  using assms by (simp add: computeInitialStar_def Let_def)

lemma cno_factor_above:
  assumes "clamp (mass p) 0.1 50 > 1.3"
  shows "ini_L_ms (computeInitialStar p) =
           L_ms_preCNO (clamp (mass p) 0.1 50) (clamp (metallicity p) 0 0.04)
             * (1 + 0.4 * (clamp (cnoFraction p) 0 1 - 0.3) * massWeight (clamp (mass p) 0.1 50))"
    and "ini_T_eff (computeInitialStar p) =
           T_eff_preCNO (clamp (mass p) 0.1 50) (clamp (metallicity p) 0 0.04)
             * (1 + 0.15 * (clamp (cnoFraction p) 0 1 - 0.3) * massWeight (clamp (mass p) 0.1 50))"
  using assms by (simp_all add: computeInitialStar_def Let_def L_cnoBoost_def T_cnoBoost_def)

lemma boost_bound:
  fixes c f w :: real
  assumes "0 \<le> f" "f \<le> 1" "0 \<le> w" "w \<le> 1" "0 \<le> c"
  shows "\<bar>c * (f - 0.3) * w\<bar> \<le> c"
proof -
  have "\<bar>f - 0.3\<bar> \<le> 1" using assms by (simp add: abs_le_iff)
  moreover have "\<bar>w\<bar> \<le> 1" using assms by simp
  ultimately have "\<bar>f - 0.3\<bar> * \<bar>w\<bar> \<le> 1 * 1"
    by (intro mult_mono) simp_all
  then have "c * (\<bar>f - 0.3\<bar> * \<bar>w\<bar>) \<le> c * 1"
    using assms by (intro mult_left_mono) simp_all
  then show ?thesis using assms by (simp add: abs_mult)
qed

lemma scaled_change_bound:
  fixes b c f w :: real
  assumes "0 \<le> b" "0 \<le> f" "f \<le> 1" "0 \<le> w" "w \<le> 1" "0 \<le> c"
  shows "\<bar>b * (1 + c * (f - 0.3) * w) - b\<bar> \<le> c * b"
proof -
  have "b * (1 + c * (f - 0.3) * w) - b = b * (c * (f - 0.3) * w)"
    by (simp add: algebra_simps)
  then have "\<bar>b * (1 + c * (f - 0.3) * w) - b\<bar> = b * \<bar>c * (f - 0.3) * w\<bar>"
    using assms by (simp add: abs_mult)
  also have "\<dots> \<le> b * c"
    using boost_bound [of f w c] assms by (intro mult_left_mono) simp_all
  finally show ?thesis by (simp add: mult.commute)
qed

lemma L_ms_preCNO_nonneg: "0 \<le> L_ms_preCNO M Z"
  by (simp add: L_ms_preCNO_def L_ms_base_def)

lemma T_eff_preCNO_nonneg: "0 \<le> T_eff_preCNO M Z"
  by (simp add: T_eff_preCNO_def T_sun_def Let_def)

lemma clamp_unit: "0 \<le> clamp x 0 1 \<and> clamp x 0 1 \<le> 1"
  by (simp add: clamp_def)

text \<open>
  C9. Two parameter sets that agree on mass and metallicity and whose clamped mass is at
  most 1.3 give the same \<open>L_ms\<close>, \<open>R_ms\<close>, \<open>T_eff\<close>, \<open>logL\<close> and \<open>logT\<close>, and the
  same \<open>X\<close>, \<open>Y\<close> and \<open>Z\<close>: only \<open>Z_cno\<close> and \<open>Z_other\<close> may differ. Above 1.3 the
  luminosity is the value before the CNO block times \<open>1 + 0.4 (fCNO - 0.3) w\<close> and the
  temperature that value times \<open>1 + 0.15 (fCNO - 0.3) w\<close>, where the weight \<open>w\<close> is 0 at
  mass 1.3, linear up to 1 at mass 5 and 1 beyond; so the luminosity moves by at most 40
  percent and the temperature by at most 15 percent of the uncorrected value.
\<close>

theorem C9_cno_correction:
  fixes p q :: StarParams
  defines "M \<equiv> clamp (mass p) 0.1 50"
    and "Z \<equiv> clamp (metallicity p) 0 0.04"
    and "fCNO \<equiv> clamp (cnoFraction p) 0 1"
  shows "(mass p = mass q \<and> metallicity p = metallicity q \<and> M \<le> 1.3 \<longrightarrow>
            ini_X (computeInitialStar p) = ini_X (computeInitialStar q)
          \<and> ini_Y (computeInitialStar p) = ini_Y (computeInitialStar q)
          \<and> ini_Z (computeInitialStar p) = ini_Z (computeInitialStar q)
          \<and> ini_L_ms (computeInitialStar p) = ini_L_ms (computeInitialStar q)
          \<and> ini_R_ms (computeInitialStar p) = ini_R_ms (computeInitialStar q)
          \<and> ini_T_eff (computeInitialStar p) = ini_T_eff (computeInitialStar q)
          \<and> ini_logL (computeInitialStar p) = ini_logL (computeInitialStar q)
          \<and> ini_logT (computeInitialStar p) = ini_logT (computeInitialStar q))
       \<and> (M > 1.3 \<longrightarrow>
            ini_L_ms (computeInitialStar p)
              = L_ms_preCNO M Z * (1 + 0.4 * (fCNO - 0.3) * massWeight M)
          \<and> ini_T_eff (computeInitialStar p)
              = T_eff_preCNO M Z * (1 + 0.15 * (fCNO - 0.3) * massWeight M)
          \<and> \<bar>ini_L_ms (computeInitialStar p) - L_ms_preCNO M Z\<bar> \<le> 0.4 * L_ms_preCNO M Z
          \<and> \<bar>ini_T_eff (computeInitialStar p) - T_eff_preCNO M Z\<bar> \<le> 0.15 * T_eff_preCNO M Z)
       \<and> massWeight 1.3 = 0 \<and> massWeight 5 = 1
       \<and> (1.3 \<le> M \<and> M \<le> 5 \<longrightarrow> massWeight M = (M - 1.3) / (5 - 1.3))
       \<and> (5 \<le> M \<longrightarrow> massWeight M = 1)"
proof -
  have low: "mass p = mass q \<and> metallicity p = metallicity q \<and> M \<le> 1.3 \<longrightarrow>
            ini_X (computeInitialStar p) = ini_X (computeInitialStar q)
          \<and> ini_Y (computeInitialStar p) = ini_Y (computeInitialStar q)
          \<and> ini_Z (computeInitialStar p) = ini_Z (computeInitialStar q)
          \<and> ini_L_ms (computeInitialStar p) = ini_L_ms (computeInitialStar q)
          \<and> ini_R_ms (computeInitialStar p) = ini_R_ms (computeInitialStar q)
          \<and> ini_T_eff (computeInitialStar p) = ini_T_eff (computeInitialStar q)
          \<and> ini_logL (computeInitialStar p) = ini_logL (computeInitialStar q)
          \<and> ini_logT (computeInitialStar p) = ini_logT (computeInitialStar q)"
    unfolding M_def using cno_blind_below [of p q] cno_blind_composition [of p q] by blast
  have f: "0 \<le> fCNO" "fCNO \<le> 1" unfolding fCNO_def using clamp_unit by simp_all
  have w: "0 \<le> massWeight M" "massWeight M \<le> 1" using massWeight_bounds by simp_all
  have high: "M > 1.3 \<longrightarrow>
            ini_L_ms (computeInitialStar p)
              = L_ms_preCNO M Z * (1 + 0.4 * (fCNO - 0.3) * massWeight M)
          \<and> ini_T_eff (computeInitialStar p)
              = T_eff_preCNO M Z * (1 + 0.15 * (fCNO - 0.3) * massWeight M)
          \<and> \<bar>ini_L_ms (computeInitialStar p) - L_ms_preCNO M Z\<bar> \<le> 0.4 * L_ms_preCNO M Z
          \<and> \<bar>ini_T_eff (computeInitialStar p) - T_eff_preCNO M Z\<bar> \<le> 0.15 * T_eff_preCNO M Z"
  proof
    assume h: "M > 1.3"
    have L: "ini_L_ms (computeInitialStar p)
              = L_ms_preCNO M Z * (1 + 0.4 * (fCNO - 0.3) * massWeight M)"
      using h cno_factor_above(1) [of p] unfolding M_def Z_def fCNO_def by simp
    have T: "ini_T_eff (computeInitialStar p)
              = T_eff_preCNO M Z * (1 + 0.15 * (fCNO - 0.3) * massWeight M)"
      using h cno_factor_above(2) [of p] unfolding M_def Z_def fCNO_def by simp
    have "\<bar>L_ms_preCNO M Z * (1 + 0.4 * (fCNO - 0.3) * massWeight M) - L_ms_preCNO M Z\<bar>
            \<le> 0.4 * L_ms_preCNO M Z"
      using scaled_change_bound [of "L_ms_preCNO M Z" fCNO "massWeight M" "0.4"]
        L_ms_preCNO_nonneg f w by simp
    moreover have "\<bar>T_eff_preCNO M Z * (1 + 0.15 * (fCNO - 0.3) * massWeight M) - T_eff_preCNO M Z\<bar>
            \<le> 0.15 * T_eff_preCNO M Z"
      using scaled_change_bound [of "T_eff_preCNO M Z" fCNO "massWeight M" "0.15"]
        T_eff_preCNO_nonneg f w by simp
    ultimately show "ini_L_ms (computeInitialStar p)
              = L_ms_preCNO M Z * (1 + 0.4 * (fCNO - 0.3) * massWeight M)
          \<and> ini_T_eff (computeInitialStar p)
              = T_eff_preCNO M Z * (1 + 0.15 * (fCNO - 0.3) * massWeight M)
          \<and> \<bar>ini_L_ms (computeInitialStar p) - L_ms_preCNO M Z\<bar> \<le> 0.4 * L_ms_preCNO M Z
          \<and> \<bar>ini_T_eff (computeInitialStar p) - T_eff_preCNO M Z\<bar> \<le> 0.15 * T_eff_preCNO M Z"
      using L T by simp
  qed
  have ends: "massWeight 1.3 = 0 \<and> massWeight 5 = 1"
    by (simp add: massWeight_def clamp_def)
  have lin: "1.3 \<le> M \<and> M \<le> 5 \<longrightarrow> massWeight M = (M - 1.3) / (5 - 1.3)"
    using massWeight_linear by blast
  have top: "5 \<le> M \<longrightarrow> massWeight M = 1"
    using massWeight_above by blast
  show ?thesis using low high ends lin top by blast
qed

theorem C9_cno_correction_witness:
  "ini_L_ms (computeInitialStar \<lparr> mass = 1, metallicity = 0.02, cnoFraction = 0 \<rparr>)
     = ini_L_ms (computeInitialStar \<lparr> mass = 1, metallicity = 0.02, cnoFraction = 1 \<rparr>)
   \<and> ini_X (computeInitialStar \<lparr> mass = 1, metallicity = 0.02, cnoFraction = 0 \<rparr>)
     = ini_X (computeInitialStar \<lparr> mass = 1, metallicity = 0.02, cnoFraction = 1 \<rparr>)
   \<and> ini_L_ms (computeInitialStar \<lparr> mass = 5, metallicity = 0.02, cnoFraction = 1 \<rparr>)
     = L_ms_preCNO 5 0.02 * 1.28
   \<and> ini_T_eff (computeInitialStar \<lparr> mass = 5, metallicity = 0.02, cnoFraction = 1 \<rparr>)
     = T_eff_preCNO 5 0.02 * 1.105"
  using C9_cno_correction [of "\<lparr> mass = 1, metallicity = 0.02, cnoFraction = 0 \<rparr>"
                              "\<lparr> mass = 1, metallicity = 0.02, cnoFraction = 1 \<rparr>"]
        C9_cno_correction [of "\<lparr> mass = 5, metallicity = 0.02, cnoFraction = 1 \<rparr>"
                              "\<lparr> mass = 5, metallicity = 0.02, cnoFraction = 1 \<rparr>"]
  by (simp add: clamp_def)

section \<open>The timeline\<close>

lemma clampMass_bounds: "0.1 \<le> clampMass m \<and> clampMass m \<le> 50"
  by (simp add: clampMass_def)

lemma tMsMyr_bounds: "3 \<le> tMsMyr_of p \<and> tMsMyr_of p \<le> 200000"
  by (simp add: tMsMyr_of_def mainSequenceLifetimeGyrFromInitial_def Let_def)

lemma uStruct_bounds: "0 \<le> uStruct_of M \<and> uStruct_of M \<le> 1"
  by (simp add: uStruct_of_def Let_def)

lemma lerp_u_pos:
  assumes "0 \<le> u" "u \<le> 1" "0 < lo" "0 < hi"
  shows "0 < lerp_u u lo hi"
proof -
  have eq: "lerp_u u lo hi = (1 - u) * lo + u * hi"
    by (simp add: lerp_u_def algebra_simps)
  have "0 < (1 - u) * lo + u * hi"
  proof (cases "u = 0")
    case True
    then show ?thesis using assms by simp
  next
    case False
    then have "0 < u * hi" using assms by simp
    moreover have "0 \<le> (1 - u) * lo" using assms by simp
    ultimately show ?thesis by linarith
  qed
  then show ?thesis by (simp add: eq)
qed

lemma rawPostSum_pos: "0 \<le> u \<Longrightarrow> u \<le> 1 \<Longrightarrow> 0 < rawPostSum_of u"
  by (simp add: rawPostSum_of_def lerp_u_def)

lemma scale_pos: "0 \<le> u \<Longrightarrow> u \<le> 1 \<Longrightarrow> 0 < scale_of u"
  unfolding scale_of_def by (intro divide_pos_pos lerp_u_pos rawPostSum_pos) simp_all

lemma durations_ms: "durations_of p ms = tMsMyr_of p"
  by (simp add: durations_of_def Let_def)

lemma durations_post:
  "durations_of p subgiant =
     lerp_u (uStruct_of (clampMass (mass p))) 0.05 0.01
       * scale_of (uStruct_of (clampMass (mass p))) * tMsMyr_of p"
  "durations_of p rgb =
     lerp_u (uStruct_of (clampMass (mass p))) 0.10 0.015
       * scale_of (uStruct_of (clampMass (mass p))) * tMsMyr_of p"
  "durations_of p hb =
     lerp_u (uStruct_of (clampMass (mass p))) 0.10 0.02
       * scale_of (uStruct_of (clampMass (mass p))) * tMsMyr_of p"
  "durations_of p agb =
     lerp_u (uStruct_of (clampMass (mass p))) 0.02 0.005
       * scale_of (uStruct_of (clampMass (mass p))) * tMsMyr_of p"
  by (simp_all add: durations_of_def Let_def scale_of_def rawPostSum_of_def)

lemma durations_wd:
  "durations_of p wd =
     min (10 * tMsMyr_of p * clampMass (mass p) powr (- 0.7)) (5 * tMsMyr_of p)"
  by (simp add: durations_of_def Let_def)

lemma durations_pos: "0 < durations_of p k"
proof -
  let ?u = "uStruct_of (clampMass (mass p))"
  have u: "0 \<le> ?u" "?u \<le> 1" using uStruct_bounds by simp_all
  have t: "0 < tMsMyr_of p" using tMsMyr_bounds [of p] by linarith
  have sc: "0 < scale_of ?u" using scale_pos u by simp
  have f: "\<And>lo hi. 0 < lo \<Longrightarrow> 0 < hi \<Longrightarrow> 0 < lerp_u ?u lo hi * scale_of ?u * tMsMyr_of p"
    using lerp_u_pos [OF u] sc t by (intro mult_pos_pos) simp_all
  have M: "0 < clampMass (mass p)" using clampMass_bounds [of "mass p"] by linarith
  show ?thesis
  proof (cases k)
    case ms
    then show ?thesis using t by (simp add: durations_ms)
  next
    case subgiant
    then show ?thesis using f [of "0.05" "0.01"] by (simp add: durations_post)
  next
    case rgb
    then show ?thesis using f [of "0.10" "0.015"] by (simp add: durations_post)
  next
    case hb
    then show ?thesis using f [of "0.10" "0.02"] by (simp add: durations_post)
  next
    case agb
    then show ?thesis using f [of "0.02" "0.005"] by (simp add: durations_post)
  next
    case wd
    have "0 < clampMass (mass p) powr (- 0.7)" using M by simp
    then have "0 < 10 * tMsMyr_of p * clampMass (mass p) powr (- 0.7)" using t by simp
    then show ?thesis using wd t by (simp add: durations_wd)
  qed
qed

lemma post_sum:
  "durations_of p subgiant + durations_of p rgb + durations_of p hb + durations_of p agb
     = lerp_u (uStruct_of (clampMass (mass p))) 0.27 0.15 * durations_of p ms"
proof -
  let ?u = "uStruct_of (clampMass (mass p))"
  have u: "0 \<le> ?u" "?u \<le> 1" using uStruct_bounds by simp_all
  have raw: "rawPostSum_of ?u \<noteq> 0" using rawPostSum_pos [OF u] by simp
  have "durations_of p subgiant + durations_of p rgb + durations_of p hb + durations_of p agb
      = rawPostSum_of ?u * scale_of ?u * tMsMyr_of p"
    unfolding durations_post by (simp add: rawPostSum_of_def algebra_simps)
  also have "\<dots> = lerp_u ?u 0.27 0.15 * tMsMyr_of p" using raw by (simp add: scale_of_def)
  finally show ?thesis by (simp add: durations_ms)
qed

lemma total_eq:
  "totalLifetimeMyr (computeEvolutionTimeline p) =
     durations_of p ms + durations_of p subgiant + durations_of p rgb + durations_of p hb
       + durations_of p agb + durations_of p wd"
  by (simp add: computeEvolutionTimeline_def Let_def Object_values_def split: prod.splits)

lemma remnant_eq:
  "remnant (computeEvolutionTimeline p) =
     (if clampMass (mass p) < 8 then WD else if clampMass (mass p) < 25 then NS else BH)"
  by (simp add: computeEvolutionTimeline_def Let_def split: prod.splits)

lemma phases_eq:
  "phases (computeEvolutionTimeline p) =
      [phaseAt p (Base ms) ''Main sequence'' 0 (durations_of p ms),
       phaseAt p (Base subgiant) ''Subgiant'' (durations_of p ms) (durations_of p subgiant),
       phaseAt p (Base rgb) ''Red giant branch''
         (durations_of p ms + durations_of p subgiant) (durations_of p rgb),
       phaseAt p (Base hb) ''Helium burning''
         (durations_of p ms + durations_of p subgiant + durations_of p rgb) (durations_of p hb),
       phaseAt p (Base agb) ''Asymptotic giant branch''
         (durations_of p ms + durations_of p subgiant + durations_of p rgb + durations_of p hb)
         (durations_of p agb),
       phaseAt p (fst (finalPhase (remnant (computeEvolutionTimeline p))))
         (snd (finalPhase (remnant (computeEvolutionTimeline p))))
         (durations_of p ms + durations_of p subgiant + durations_of p rgb + durations_of p hb
            + durations_of p agb)
         (durations_of p wd)]"
  by (simp add: computeEvolutionTimeline_def Let_def Object_values_def orderedBase_def
      pushPhase_def phaseAt_def split: prod.splits)

lemma total_pos: "0 < totalLifetimeMyr (computeEvolutionTimeline p)"
  using durations_pos [of p ms] durations_pos [of p subgiant] durations_pos [of p rgb]
    durations_pos [of p hb] durations_pos [of p agb] durations_pos [of p wd]
  by (simp add: total_eq)

lemma total_upper: "totalLifetimeMyr (computeEvolutionTimeline p) \<le> 1254000"
proof -
  let ?u = "uStruct_of (clampMass (mass p))"
  have u: "0 \<le> ?u" "?u \<le> 1" using uStruct_bounds by simp_all
  have t: "0 < tMsMyr_of p" "tMsMyr_of p \<le> 200000" using tMsMyr_bounds [of p] by simp_all
  have "lerp_u ?u 0.27 0.15 \<le> 0.27" using u by (simp add: lerp_u_def)
  then have "lerp_u ?u 0.27 0.15 * tMsMyr_of p \<le> 0.27 * tMsMyr_of p"
    using t by (intro mult_right_mono) simp_all
  moreover have "durations_of p wd \<le> 5 * tMsMyr_of p" by (simp add: durations_wd)
  ultimately have "totalLifetimeMyr (computeEvolutionTimeline p) \<le> 6.27 * tMsMyr_of p"
    using post_sum [of p] by (simp add: total_eq durations_ms)
  then show ?thesis using t by simp
qed

lemma phases_length: "length (phases (computeEvolutionTimeline p)) = 6"
  by (simp add: phases_eq)

lemma phases_nth:
  "phases (computeEvolutionTimeline p) ! 0
     = phaseAt p (Base ms) ''Main sequence'' 0 (durations_of p ms)"
  "phases (computeEvolutionTimeline p) ! 1
     = phaseAt p (Base subgiant) ''Subgiant'' (durations_of p ms) (durations_of p subgiant)"
  "phases (computeEvolutionTimeline p) ! 2
     = phaseAt p (Base rgb) ''Red giant branch''
         (durations_of p ms + durations_of p subgiant) (durations_of p rgb)"
  "phases (computeEvolutionTimeline p) ! 3
     = phaseAt p (Base hb) ''Helium burning''
         (durations_of p ms + durations_of p subgiant + durations_of p rgb) (durations_of p hb)"
  "phases (computeEvolutionTimeline p) ! 4
     = phaseAt p (Base agb) ''Asymptotic giant branch''
         (durations_of p ms + durations_of p subgiant + durations_of p rgb + durations_of p hb)
         (durations_of p agb)"
  "phases (computeEvolutionTimeline p) ! 5
     = phaseAt p (fst (finalPhase (remnant (computeEvolutionTimeline p))))
         (snd (finalPhase (remnant (computeEvolutionTimeline p))))
         (durations_of p ms + durations_of p subgiant + durations_of p rgb + durations_of p hb
            + durations_of p agb)
         (durations_of p wd)"
  by (simp_all add: phases_eq)

lemma phaseAt_sel:
  "ph_id (phaseAt p i l t0 dt) = i"
  "ph_label (phaseAt p i l t0 dt) = l"
  "tStartMyr (phaseAt p i l t0 dt) = t0"
  "tEndMyr (phaseAt p i l t0 dt) = t0 + dt"
  "durationMyr (phaseAt p i l t0 dt) = dt"
  "fracEnd (phaseAt p i l t0 dt) = (t0 + dt) / totalLifetimeMyr (computeEvolutionTimeline p)"
  by (simp_all add: phaseAt_def)

lemma phase_wellformed:
  assumes "ph \<in> set (phases (computeEvolutionTimeline p))"
  shows "0 < durationMyr ph \<and> tEndMyr ph = tStartMyr ph + durationMyr ph"
  using assms durations_pos [of p] by (auto simp add: phases_eq phaseAt_sel)

lemma lt5_cases: "i < (5::nat) \<Longrightarrow> i = 0 \<or> i = 1 \<or> i = 2 \<or> i = 3 \<or> i = 4"
  by arith

lemma phases_contiguous:
  assumes "i < 5"
  shows "tEndMyr (phases (computeEvolutionTimeline p) ! i)
           = tStartMyr (phases (computeEvolutionTimeline p) ! (i + 1))"
  using lt5_cases [OF assms] by (auto simp add: phases_eq phaseAt_sel)

lemma last_phase_end:
  "tEndMyr (phases (computeEvolutionTimeline p) ! 5) = totalLifetimeMyr (computeEvolutionTimeline p)"
  by (simp add: phases_nth phaseAt_sel total_eq)

lemma last_fracEnd: "fracEnd (phases (computeEvolutionTimeline p) ! 5) = 1"
proof -
  have "fracEnd (phases (computeEvolutionTimeline p) ! 5)
          = tEndMyr (phases (computeEvolutionTimeline p) ! 5)
              / totalLifetimeMyr (computeEvolutionTimeline p)"
    by (simp add: phases_nth phaseAt_sel)
  then show ?thesis using total_pos [of p] by (simp add: last_phase_end)
qed

text \<open>
  C2. The timeline has exactly six phases; each has a non-negative duration and ends at
  its start plus its duration; each phase ends where the next starts; the first starts
  at 0, the last ends at \<open>totalLifetimeMyr\<close>, which is positive; the last phase's
  \<open>fracEnd\<close> is 1 within \<open>1e-9\<close>.
\<close>

theorem C2_timeline_partition:
  "length (phases (computeEvolutionTimeline p)) = 6
   \<and> (\<forall>ph \<in> set (phases (computeEvolutionTimeline p)).
         0 \<le> durationMyr ph \<and> tEndMyr ph = tStartMyr ph + durationMyr ph)
   \<and> (\<forall>i<5. tEndMyr (phases (computeEvolutionTimeline p) ! i)
               = tStartMyr (phases (computeEvolutionTimeline p) ! (i + 1)))
   \<and> tStartMyr (phases (computeEvolutionTimeline p) ! 0) = 0
   \<and> tEndMyr (phases (computeEvolutionTimeline p) ! 5)
        = totalLifetimeMyr (computeEvolutionTimeline p)
   \<and> 0 < totalLifetimeMyr (computeEvolutionTimeline p)
   \<and> \<bar>fracEnd (phases (computeEvolutionTimeline p) ! 5) - 1\<bar> \<le> 1 / 10 ^ 9"
proof -
  have "\<forall>ph \<in> set (phases (computeEvolutionTimeline p)).
         0 \<le> durationMyr ph \<and> tEndMyr ph = tStartMyr ph + durationMyr ph"
    using phase_wellformed [of _ p] by (simp add: less_imp_le)
  moreover have "\<forall>i<5. tEndMyr (phases (computeEvolutionTimeline p) ! i)
               = tStartMyr (phases (computeEvolutionTimeline p) ! (i + 1))"
    using phases_contiguous by blast
  moreover have "tStartMyr (phases (computeEvolutionTimeline p) ! 0) = 0"
    by (simp add: phases_nth phaseAt_sel)
  moreover have "\<bar>fracEnd (phases (computeEvolutionTimeline p) ! 5) - 1\<bar> \<le> 1 / 10 ^ 9"
    by (simp add: last_fracEnd)
  ultimately show ?thesis
    using phases_length last_phase_end total_pos by blast
qed

theorem C2_timeline_partition_witness:
  "length (phases (computeEvolutionTimeline solarParams)) = 6
   \<and> tEndMyr (phases (computeEvolutionTimeline solarParams) ! 4)
        = tStartMyr (phases (computeEvolutionTimeline solarParams) ! 5)
   \<and> 0 \<le> durationMyr (phases (computeEvolutionTimeline solarParams) ! 5)
   \<and> tEndMyr (phases (computeEvolutionTimeline solarParams) ! 5)
        = totalLifetimeMyr (computeEvolutionTimeline solarParams)"
proof -
  have len: "length (phases (computeEvolutionTimeline solarParams)) = 6"
    using C2_timeline_partition [of solarParams] by simp
  then have "phases (computeEvolutionTimeline solarParams) ! 5
               \<in> set (phases (computeEvolutionTimeline solarParams))"
    by simp
  then show ?thesis
    using C2_timeline_partition [of solarParams] by auto
qed

lemma remnant_by_mass:
  "remnant (computeEvolutionTimeline p) =
     (if mass p < 8 then WD else if mass p < 25 then NS else BH)"
  by (simp add: remnant_eq clampMass_def min_def max_def)

text \<open>
  C3. The remnant depends on the mass alone: below 8 it is a white dwarf, from 8 up to
  but not including 25 a neutron star, from 25 on a black hole, whatever the metallicity
  and the CNO fraction; so 7.99 gives \<open>wd\<close>, 8 gives \<open>ns\<close>, 24.99 gives \<open>ns\<close> and 25
  gives \<open>bh\<close>, and two parameter sets of equal mass have the same remnant.
\<close>

theorem C3_remnant_mass_only:
  "(mass p < 8 \<longrightarrow> remnant (computeEvolutionTimeline p) = WD)
   \<and> (8 \<le> mass p \<and> mass p < 25 \<longrightarrow> remnant (computeEvolutionTimeline p) = NS)
   \<and> (25 \<le> mass p \<longrightarrow> remnant (computeEvolutionTimeline p) = BH)
   \<and> (mass p = mass q \<longrightarrow>
        remnant (computeEvolutionTimeline p) = remnant (computeEvolutionTimeline q))
   \<and> remnant (computeEvolutionTimeline \<lparr> mass = 7.99, metallicity = z, cnoFraction = c \<rparr>) = WD
   \<and> remnant (computeEvolutionTimeline \<lparr> mass = 8.0, metallicity = z, cnoFraction = c \<rparr>) = NS
   \<and> remnant (computeEvolutionTimeline \<lparr> mass = 24.99, metallicity = z, cnoFraction = c \<rparr>) = NS
   \<and> remnant (computeEvolutionTimeline \<lparr> mass = 25.0, metallicity = z, cnoFraction = c \<rparr>) = BH"
  by (simp add: remnant_by_mass)

theorem C3_remnant_mass_only_witness:
  "remnant (computeEvolutionTimeline solarParams) = WD
   \<and> remnant (computeEvolutionTimeline \<lparr> mass = 10, metallicity = 0.02, cnoFraction = 0.3 \<rparr>) = NS
   \<and> remnant (computeEvolutionTimeline \<lparr> mass = 30, metallicity = 0, cnoFraction = 1 \<rparr>) = BH
   \<and> remnant (computeEvolutionTimeline \<lparr> mass = 1, metallicity = 0.04, cnoFraction = 1 \<rparr>)
        = remnant (computeEvolutionTimeline solarParams)"
  using C3_remnant_mass_only [of solarParams solarParams]
    C3_remnant_mass_only [of "\<lparr> mass = 10, metallicity = 0.02, cnoFraction = 0.3 \<rparr>" solarParams]
    C3_remnant_mass_only [of "\<lparr> mass = 30, metallicity = 0, cnoFraction = 1 \<rparr>" solarParams]
    C3_remnant_mass_only [of "\<lparr> mass = 1, metallicity = 0.04, cnoFraction = 1 \<rparr>" solarParams]
  by (simp add: solarParams_def)

text \<open>
  C8. A query time below 0 gives the same state, field for field, as the query time 0,
  and a query time above \<open>totalLifetimeMyr\<close> the same state as \<open>totalLifetimeMyr\<close>,
  for every parameter set and every timeline.
\<close>

theorem C8_clamping:
  "(t < 0 \<longrightarrow> getStarStateAtTime p tline t = getStarStateAtTime p tline 0)
   \<and> (t > totalLifetimeMyr tline \<longrightarrow>
        getStarStateAtTime p tline t = getStarStateAtTime p tline (totalLifetimeMyr tline))"
proof -
  have "t < 0 \<longrightarrow> clamp t 0 (totalLifetimeMyr tline) = clamp 0 0 (totalLifetimeMyr tline)"
    by (simp add: clamp_def max_def)
  moreover have "t > totalLifetimeMyr tline \<longrightarrow>
      clamp t 0 (totalLifetimeMyr tline)
        = clamp (totalLifetimeMyr tline) 0 (totalLifetimeMyr tline)"
    by (simp add: clamp_def min_def max_def)
  ultimately show ?thesis by (simp add: getStarStateAtTime_def)
qed

theorem C8_clamping_witness:
  "getStarStateAtTime solarParams (computeEvolutionTimeline solarParams) (- 1)
     = getStarStateAtTime solarParams (computeEvolutionTimeline solarParams) 0
   \<and> getStarStateAtTime solarParams (computeEvolutionTimeline solarParams) 2000000
     = getStarStateAtTime solarParams (computeEvolutionTimeline solarParams)
         (totalLifetimeMyr (computeEvolutionTimeline solarParams))"
proof -
  have "totalLifetimeMyr (computeEvolutionTimeline solarParams) < 2000000"
    using total_upper [of solarParams] by simp
  then show ?thesis
    using C8_clamping [of "- 1" solarParams "computeEvolutionTimeline solarParams"]
      C8_clamping [of 2000000 solarParams "computeEvolutionTimeline solarParams"]
    by simp
qed






section \<open>Locating the active phase\<close>

lemma locateActive_Some:
  "locateActive t phs = Some ph \<Longrightarrow> ph \<in> set phs \<and> tStartMyr ph \<le> t \<and> t \<le> tEndMyr ph"
  by (induction phs) (auto split: if_splits)

lemma locateActive_found:
  "ph \<in> set phs \<Longrightarrow> tStartMyr ph \<le> t \<Longrightarrow> t \<le> tEndMyr ph \<Longrightarrow> \<exists>a. locateActive t phs = Some a"
  by (induction phs) auto

lemma pinToLast_Some: "pinToLast (Some a) phs = Some a"
  by (simp add: pinToLast_def)

lemma timeline_covers:
  assumes "0 \<le> t" "t \<le> totalLifetimeMyr (computeEvolutionTimeline p)"
  shows "\<exists>ph \<in> set (phases (computeEvolutionTimeline p)). tStartMyr ph \<le> t \<and> t \<le> tEndMyr ph"
proof -
  let ?d = "durations_of p"
  have t: "t \<le> ?d ms + ?d subgiant + ?d rgb + ?d hb + ?d agb + ?d wd"
    using assms by (simp add: total_eq)
  consider "t \<le> ?d ms"
    | "?d ms \<le> t" "t \<le> ?d ms + ?d subgiant"
    | "?d ms + ?d subgiant \<le> t" "t \<le> ?d ms + ?d subgiant + ?d rgb"
    | "?d ms + ?d subgiant + ?d rgb \<le> t" "t \<le> ?d ms + ?d subgiant + ?d rgb + ?d hb"
    | "?d ms + ?d subgiant + ?d rgb + ?d hb \<le> t"
      "t \<le> ?d ms + ?d subgiant + ?d rgb + ?d hb + ?d agb"
    | "?d ms + ?d subgiant + ?d rgb + ?d hb + ?d agb \<le> t"
    by linarith
  then show ?thesis
  proof cases
    case 1
    then show ?thesis using assms by (simp add: phases_eq phaseAt_sel)
  next
    case 2
    then show ?thesis by (simp add: phases_eq phaseAt_sel)
  next
    case 3
    then show ?thesis by (simp add: phases_eq phaseAt_sel)
  next
    case 4
    then show ?thesis by (simp add: phases_eq phaseAt_sel)
  next
    case 5
    then show ?thesis by (simp add: phases_eq phaseAt_sel)
  next
    case 6
    then show ?thesis using t by (simp add: phases_eq phaseAt_sel)
  qed
qed

lemma clamp_in_range: "0 \<le> hi \<Longrightarrow> 0 \<le> clamp t 0 hi \<and> clamp t 0 hi \<le> hi"
  by (simp add: clamp_def)

text \<open>
  C7. For a timeline built by \<open>computeEvolutionTimeline\<close> and any query time, the scan
  finds a phase whose closed interval holds the clamped time, so the pin to the last
  phase changes nothing and the lookup is never empty.
\<close>

theorem C7_scan_finds_phase:
  "\<exists>ph. locateActive (clamp t 0 (totalLifetimeMyr (computeEvolutionTimeline p)))
            (phases (computeEvolutionTimeline p)) = Some ph
        \<and> pinToLast (locateActive (clamp t 0 (totalLifetimeMyr (computeEvolutionTimeline p)))
                        (phases (computeEvolutionTimeline p)))
            (phases (computeEvolutionTimeline p)) = Some ph
        \<and> tStartMyr ph \<le> clamp t 0 (totalLifetimeMyr (computeEvolutionTimeline p))
        \<and> clamp t 0 (totalLifetimeMyr (computeEvolutionTimeline p)) \<le> tEndMyr ph"
proof -
  let ?T = "totalLifetimeMyr (computeEvolutionTimeline p)"
  have "0 \<le> clamp t 0 ?T \<and> clamp t 0 ?T \<le> ?T"
    using clamp_in_range [of ?T t] total_pos [of p] by simp
  then obtain ph where "ph \<in> set (phases (computeEvolutionTimeline p))"
      "tStartMyr ph \<le> clamp t 0 ?T" "clamp t 0 ?T \<le> tEndMyr ph"
    using timeline_covers [of "clamp t 0 ?T" p] by blast
  then obtain a where a: "locateActive (clamp t 0 ?T) (phases (computeEvolutionTimeline p)) = Some a"
    using locateActive_found by blast
  then show ?thesis
    using locateActive_Some [OF a] by (simp add: pinToLast_Some)
qed

lemma tMs_le_total: "3 \<le> totalLifetimeMyr (computeEvolutionTimeline p)"
  using durations_pos [of p subgiant] durations_pos [of p rgb]
    durations_pos [of p hb] durations_pos [of p agb] durations_pos [of p wd] tMsMyr_bounds [of p]
  by (simp add: total_eq durations_ms)

theorem C7_scan_finds_phase_witness:
  "\<exists>ph. locateActive 1 (phases (computeEvolutionTimeline solarParams)) = Some ph
        \<and> tStartMyr ph \<le> 1 \<and> 1 \<le> tEndMyr ph"
proof -
  have "clamp 1 0 (totalLifetimeMyr (computeEvolutionTimeline solarParams)) = 1"
    using tMs_le_total [of solarParams] by (simp add: clamp_def)
  then show ?thesis
    using C7_scan_finds_phase [of 1 solarParams] by auto
qed

section \<open>Sampling at a phase boundary\<close>

lemma locate_at_boundary:
  assumes "i < 5"
  shows "locateActive (tEndMyr (phases (computeEvolutionTimeline p) ! i))
           (phases (computeEvolutionTimeline p))
         = Some (phases (computeEvolutionTimeline p) ! i)"
proof -
  note pos = durations_pos [of p ms] durations_pos [of p subgiant]
    durations_pos [of p rgb] durations_pos [of p hb] durations_pos [of p agb]
  from lt5_cases [OF assms] show ?thesis
  proof (elim disjE)
    assume "i = 0"
    then show ?thesis using pos by (simp add: phases_eq phaseAt_sel)
  next
    assume "i = 1"
    then show ?thesis using pos by (simp add: phases_eq phaseAt_sel)
  next
    assume "i = 2"
    then show ?thesis using pos by (simp add: phases_eq phaseAt_sel)
  next
    assume "i = 3"
    then show ?thesis using pos by (simp add: phases_eq phaseAt_sel)
  next
    assume "i = 4"
    then show ?thesis using pos by (simp add: phases_eq phaseAt_sel)
  qed
qed

lemma boundary_in_range:
  assumes "i < 5"
  shows "0 \<le> tEndMyr (phases (computeEvolutionTimeline p) ! i)
       \<and> tEndMyr (phases (computeEvolutionTimeline p) ! i)
           \<le> totalLifetimeMyr (computeEvolutionTimeline p)"
proof -
  note pos = durations_pos [of p ms] durations_pos [of p subgiant]
    durations_pos [of p rgb] durations_pos [of p hb] durations_pos [of p agb]
    durations_pos [of p wd]
  from lt5_cases [OF assms] show ?thesis
  proof (elim disjE)
    assume "i = 0"
    then show ?thesis using pos by (simp add: phases_eq phaseAt_sel total_eq)
  next
    assume "i = 1"
    then show ?thesis using pos by (simp add: phases_eq phaseAt_sel total_eq)
  next
    assume "i = 2"
    then show ?thesis using pos by (simp add: phases_eq phaseAt_sel total_eq)
  next
    assume "i = 3"
    then show ?thesis using pos by (simp add: phases_eq phaseAt_sel total_eq)
  next
    assume "i = 4"
    then show ?thesis using pos by (simp add: phases_eq phaseAt_sel total_eq)
  qed
qed

lemma clamp_id: "lo \<le> x \<Longrightarrow> x \<le> hi \<Longrightarrow> clamp x lo hi = x"
  by (simp add: clamp_def)

lemma safePhaseFraction_end:
  "tStartMyr ph < tEndMyr ph \<Longrightarrow> safePhaseFraction ph (tEndMyr ph) = 1"
  by (simp add: safePhaseFraction_def Let_def clamp_def)

lemma lerp_one: "lerp a b 1 = b"
  by (simp add: lerp_def)

lemma state_of_active:
  assumes "locateActive (clamp t 0 (totalLifetimeMyr tline)) (phases tline) = Some a"
  shows "st_phaseId (getStarStateAtTime p tline t) = ph_id a"
    and "st_phaseFrac (getStarStateAtTime p tline t)
           = safePhaseFraction a (clamp t 0 (totalLifetimeMyr tline))"
    and "st_L (getStarStateAtTime p tline t)
           = lerp (pt_L (shape_start (buildPhaseShapes p (computeInitialStar p) (remnant tline)
                                        (shapeKeyForPhase (ph_id a)))))
                  (pt_L (shape_end (buildPhaseShapes p (computeInitialStar p) (remnant tline)
                                        (shapeKeyForPhase (ph_id a)))))
                  (safePhaseFraction a (clamp t 0 (totalLifetimeMyr tline)))"
    and "st_R (getStarStateAtTime p tline t)
           = lerp (pt_R (shape_start (buildPhaseShapes p (computeInitialStar p) (remnant tline)
                                        (shapeKeyForPhase (ph_id a)))))
                  (pt_R (shape_end (buildPhaseShapes p (computeInitialStar p) (remnant tline)
                                        (shapeKeyForPhase (ph_id a)))))
                  (safePhaseFraction a (clamp t 0 (totalLifetimeMyr tline)))"
    and "st_T_eff (getStarStateAtTime p tline t)
           = lerp (pt_T_eff (shape_start (buildPhaseShapes p (computeInitialStar p) (remnant tline)
                                        (shapeKeyForPhase (ph_id a)))))
                  (pt_T_eff (shape_end (buildPhaseShapes p (computeInitialStar p) (remnant tline)
                                        (shapeKeyForPhase (ph_id a)))))
                  (safePhaseFraction a (clamp t 0 (totalLifetimeMyr tline)))"
  using assms by (simp_all add: getStarStateAtTime_def Let_def pinToLast_Some)

lemma boundary_state:
  fixes p q :: StarParams
  defines "tline \<equiv> computeEvolutionTimeline q"
  assumes "i < 5"
  shows "tEndMyr (phases tline ! i) = tStartMyr (phases tline ! (i + 1))
       \<and> st_phaseId (getStarStateAtTime p tline (tEndMyr (phases tline ! i))) = ph_id (phases tline ! i)
       \<and> st_phaseFrac (getStarStateAtTime p tline (tEndMyr (phases tline ! i))) = 1
       \<and> st_L (getStarStateAtTime p tline (tEndMyr (phases tline ! i)))
           = pt_L (shape_end (buildPhaseShapes p (computeInitialStar p) (remnant tline)
                                (shapeKeyForPhase (ph_id (phases tline ! i)))))
       \<and> st_R (getStarStateAtTime p tline (tEndMyr (phases tline ! i)))
           = pt_R (shape_end (buildPhaseShapes p (computeInitialStar p) (remnant tline)
                                (shapeKeyForPhase (ph_id (phases tline ! i)))))
       \<and> st_T_eff (getStarStateAtTime p tline (tEndMyr (phases tline ! i)))
           = pt_T_eff (shape_end (buildPhaseShapes p (computeInitialStar p) (remnant tline)
                                (shapeKeyForPhase (ph_id (phases tline ! i)))))"
proof -
  let ?tline = "computeEvolutionTimeline q"
  let ?ph = "phases ?tline ! i"
  note i = assms(2)
  have mem: "?ph \<in> set (phases ?tline)"
    using i by (simp add: phases_length)
  then have pos: "0 < durationMyr ?ph" using phase_wellformed [of ?ph q] by simp
  have wf: "tEndMyr ?ph = tStartMyr ?ph + durationMyr ?ph"
    using mem phase_wellformed [of ?ph q] by simp
  have lt: "tStartMyr ?ph < tEndMyr ?ph" using pos wf by simp
  have cl: "clamp (tEndMyr ?ph) 0 (totalLifetimeMyr ?tline) = tEndMyr ?ph"
    using boundary_in_range [OF i, of q] by (simp add: clamp_id)
  have act: "locateActive (clamp (tEndMyr ?ph) 0 (totalLifetimeMyr ?tline)) (phases ?tline) = Some ?ph"
    unfolding cl by (rule locate_at_boundary [OF i])
  have fr: "safePhaseFraction ?ph (clamp (tEndMyr ?ph) 0 (totalLifetimeMyr ?tline)) = 1"
    unfolding cl by (rule safePhaseFraction_end [OF lt])
  have nx: "tEndMyr ?ph = tStartMyr (phases ?tline ! (i + 1))"
    by (rule phases_contiguous [OF i])
  show ?thesis
    unfolding tline_def state_of_active [OF act, of p] fr lerp_one
    using nx by simp
qed

section \<open>The keypoint chain\<close>

lemma keypoints_chain_base:
  "shape_start (buildPhaseShapes p ini r subgiant) = shape_end (buildPhaseShapes p ini r ms)"
  "shape_start (buildPhaseShapes p ini r rgb) = shape_end (buildPhaseShapes p ini r subgiant)"
  "shape_start (buildPhaseShapes p ini r hb) = shape_end (buildPhaseShapes p ini r rgb)"
  "shape_start (buildPhaseShapes p ini r agb) = shape_end (buildPhaseShapes p ini r hb)"
  by (simp_all add: buildPhaseShapes_def Let_def)

lemma keypoints_chain_core_collapse:
  "r \<noteq> WD \<Longrightarrow>
     shape_start (buildPhaseShapes p ini r wd) = shape_end (buildPhaseShapes p ini r agb)"
  by (simp add: buildPhaseShapes_def Let_def)


lemma shapes_WD:
  "shape_start (buildPhaseShapes p ini WD wd) = wdStart (clamp (mass p) 0.1 50) (ini_L_ms ini)"
  "shape_end (buildPhaseShapes p ini r agb) =
     agbEnd (clamp (mass p) 0.1 50) (clamp (clamp (metallicity p) 0 0.04 / 0.02) 0.1 3)
       (ini_R_ms ini) (ini_logL ini)"
  by (simp_all add: buildPhaseShapes_def Let_def)

lemma solar_clamped:
  "clamp (mass solarParams) (1 / 10) 50 = 1"
  "clamp (metallicity solarParams) 0 (1 / 25) = 1 / 50"
  "clamp (cnoFraction solarParams) 0 1 = 3 / 10"
  by (simp_all add: solarParams_def clamp_def)

lemma Z_rel_solar: "Z_rel (1 / 50) = 1"
  by (simp add: Z_rel_def Z_sun_def clamp_def)

lemma solar_initial:
  "ini_L_ms (computeInitialStar solarParams) = 1"
  "ini_R_ms (computeInitialStar solarParams) = 1"
  "ini_logL (computeInitialStar solarParams) = 0"
  by (simp_all add: computeInitialStar_def Let_def solar_clamped
      L_ms_preCNO_def L_ms_base_def Z_rel_solar)

lemma wdStart_solar: "wdStart 1 1 = \<lparr> pt_L = 0.08, pt_R = 0.015, pt_T_eff = 25000 \<rparr>"
  by (simp add: wdStart_def R_wd_def clamp_def)

lemma agbEnd_solar: "agbEnd 1 1 1 0 = \<lparr> pt_L = 10 powr 4.15, pt_R = 85, pt_T_eff = 3690 \<rparr>"
  by (simp add: agbEnd_def L_agb_def logL_agb_def logL_rgbTip_def R_agb_def R_rgbTip_def
      T_agb_def T_rgbNominal_def clamp_def)


lemma solar_wd_keypoints:
  "shape_end (buildPhaseShapes solarParams (computeInitialStar solarParams) WD agb)
     = \<lparr> pt_L = 10 powr 4.15, pt_R = 85, pt_T_eff = 3690 \<rparr>"
  "shape_start (buildPhaseShapes solarParams (computeInitialStar solarParams) WD wd)
     = \<lparr> pt_L = 0.08, pt_R = 0.015, pt_T_eff = 25000 \<rparr>"
  by (simp_all add: shapes_WD solar_clamped solar_initial)
    (simp_all add: clamp_def agbEnd_solar wdStart_solar)


lemma shapes_WD_radius:
  "pt_R (shape_start (buildPhaseShapes p ini WD wd)) = R_wd (clamp (mass p) 0.1 50)"
  "pt_R (shape_end (buildPhaseShapes p ini WD wd)) = R_wd (clamp (mass p) 0.1 50)"
  by (simp_all add: buildPhaseShapes_def Let_def wdStart_def wdEnd_def)

lemma lerp_const: "lerp a a f = a"
  by (simp add: lerp_def)

lemma final_key: "shapeKeyForPhase (ph_id (phases (computeEvolutionTimeline p) ! 5)) = wd"
  by (simp add: phases_nth phaseAt_sel finalPhase_def)

lemma locate_in_final:
  assumes "tStartMyr (phases (computeEvolutionTimeline p) ! 5) < t"
    and "t \<le> totalLifetimeMyr (computeEvolutionTimeline p)"
  shows "locateActive t (phases (computeEvolutionTimeline p))
           = Some (phases (computeEvolutionTimeline p) ! 5)"
  using assms durations_pos [of p ms] durations_pos [of p subgiant]
    durations_pos [of p rgb] durations_pos [of p hb] durations_pos [of p agb]
  by (simp add: phases_eq phaseAt_sel total_eq)

text \<open>On a white-dwarf timeline the radius is the constant \<open>R_wd\<close> all through the final phase.\<close>

lemma wd_final_radius:
  assumes "remnant (computeEvolutionTimeline p) = WD"
    and "tStartMyr (phases (computeEvolutionTimeline p) ! 5) < t"
    and "t \<le> totalLifetimeMyr (computeEvolutionTimeline p)"
  shows "st_R (getStarStateAtTime p (computeEvolutionTimeline p) t) = R_wd (clamp (mass p) 0.1 50)"
proof -
  let ?tl = "computeEvolutionTimeline p"
  have "0 \<le> tStartMyr (phases ?tl ! 5)"
    using boundary_in_range [of 4 p] phases_contiguous [of 4 p] by simp
  then have cl: "clamp t 0 (totalLifetimeMyr ?tl) = t"
    using assms by (simp add: clamp_id)
  have act: "locateActive (clamp t 0 (totalLifetimeMyr ?tl)) (phases ?tl) = Some (phases ?tl ! 5)"
    unfolding cl by (rule locate_in_final [OF assms(2,3)])
  show ?thesis
    unfolding state_of_active(4) [OF act, of p] final_key assms(1) shapes_WD_radius lerp_const
    by (rule refl)
qed

lemma solar_remnant: "remnant (computeEvolutionTimeline solarParams) = WD"
  by (simp add: remnant_by_mass solarParams_def)

lemma R_wd_solar: "R_wd (clamp (mass solarParams) 0.1 50) = 0.015"
  by (simp add: solar_clamped R_wd_def)

text \<open>
  C1. The claim: on every remnant branch each shape starts at the previous shape's end,
  so the sampled \<open>L\<close>, \<open>R\<close>, \<open>T_eff\<close> have no jump at any of the five internal
  boundaries. The chain holds from \<open>ms\<close> to \<open>agb\<close> on every branch and into the final
  shape on the \<open>ns\<close> and \<open>bh\<close> branches (lemmas \<open>keypoints_chain_base\<close> and
  \<open>keypoints_chain_core_collapse\<close>). On the \<open>wd\<close> branch the final shape starts at
  \<open>wdStart\<close>: for the near-solar star, whose remnant is \<open>wd\<close>, the \<open>agb\<close> shape ends at
  \<open>(10^4.15, 85, 3690)\<close> and the final shape starts at \<open>(0.08, 0.015, 25000)\<close>; the
  sampled radius is 85 at the boundary between \<open>agb\<close> and the final phase and 0.015 at
  the end of the timeline (and at every time in between, lemma \<open>wd_final_radius\<close>).
\<close>

theorem C1_wd_track_breaks_chain:
  "remnant (computeEvolutionTimeline solarParams) = WD
   \<and> shape_end (buildPhaseShapes solarParams (computeInitialStar solarParams) WD agb)
       = \<lparr> pt_L = 10 powr 4.15, pt_R = 85, pt_T_eff = 3690 \<rparr>
   \<and> shape_start (buildPhaseShapes solarParams (computeInitialStar solarParams) WD wd)
       = \<lparr> pt_L = 0.08, pt_R = 0.015, pt_T_eff = 25000 \<rparr>
   \<and> st_R (getStarStateAtTime solarParams (computeEvolutionTimeline solarParams)
               (tEndMyr (phases (computeEvolutionTimeline solarParams) ! 4))) = 85
   \<and> st_R (getStarStateAtTime solarParams (computeEvolutionTimeline solarParams)
               (totalLifetimeMyr (computeEvolutionTimeline solarParams))) = 0.015"
proof -
  let ?tl = "computeEvolutionTimeline solarParams"
  have i: "(4::nat) < 5" by simp
  have "st_R (getStarStateAtTime solarParams ?tl (tEndMyr (phases ?tl ! 4)))
          = pt_R (shape_end (buildPhaseShapes solarParams (computeInitialStar solarParams)
                (remnant ?tl) (shapeKeyForPhase (ph_id (phases ?tl ! 4)))))"
    using boundary_state [OF i, of solarParams solarParams] by blast
  also have "\<dots> = pt_R (shape_end (buildPhaseShapes solarParams
                (computeInitialStar solarParams) WD agb))"
    by (simp add: solar_remnant phases_nth phaseAt_sel)
  also have "\<dots> = 85" by (simp add: solar_wd_keypoints)
  finally have left: "st_R (getStarStateAtTime solarParams ?tl (tEndMyr (phases ?tl ! 4))) = 85" .
  have "tStartMyr (phases ?tl ! 5) < totalLifetimeMyr ?tl"
    using durations_pos [of solarParams wd] by (simp add: phases_nth phaseAt_sel total_eq)
  then have right: "st_R (getStarStateAtTime solarParams ?tl (totalLifetimeMyr ?tl)) = 0.015"
    using wd_final_radius [OF solar_remnant, of "totalLifetimeMyr ?tl"] by (simp add: R_wd_solar)
  show ?thesis
    using left right solar_remnant solar_wd_keypoints by simp
qed

section \<open>The main-sequence lifetime of the lightest star\<close>

lemma lifetime_clamped:
  "mainSequenceLifetimeGyrFromInitial ini p = min (max (rawLifetimeGyr ini p) 0.003) 200"
  by (simp add: mainSequenceLifetimeGyrFromInitial_def rawLifetimeGyr_def Let_def mult.assoc)

lemma powr_rat_eq:
  fixes x :: real
  assumes "0 < x" "0 < n"
  shows "(x powr (real m / real n)) ^ n = x ^ m"
proof -
  have "(x powr (real m / real n)) ^ n = (x powr (real m / real n)) powr (real n)"
    using assms(1) by (subst powr_realpow) simp_all
  also have "\<dots> = x powr (real m / real n * real n)" by (simp add: powr_powr)
  also have "\<dots> = x powr (real m)" using assms by simp
  also have "\<dots> = x ^ m" using assms by (simp add: powr_realpow)
  finally show ?thesis .
qed

lemma powr_rat_ge:
  fixes x c :: real
  assumes "0 < x" "0 < n" "0 \<le> c" "c ^ n \<le> x ^ m"
  shows "c \<le> x powr (real m / real n)"
proof (rule ccontr)
  assume "\<not> c \<le> x powr (real m / real n)"
  then have lt: "x powr (real m / real n) < c" by simp
  have "(x powr (real m / real n)) ^ n < c ^ n"
    using lt assms(2) by (intro power_strict_mono) simp_all
  then show False using powr_rat_eq [OF assms(1,2), of m] assms(4) by simp
qed

lemma powr_rat_le:
  fixes x c :: real
  assumes "0 < x" "0 < n" "0 \<le> c" "x ^ m \<le> c ^ n"
  shows "x powr (real m / real n) \<le> c"
proof (rule ccontr)
  assume "\<not> x powr (real m / real n) \<le> c"
  then have lt: "c < x powr (real m / real n)" by simp
  have "c ^ n < (x powr (real m / real n)) ^ n"
    using lt assms(2,3) by (intro power_strict_mono) simp_all
  then show False using powr_rat_eq [OF assms(1,2), of m] assms(4) by simp
qed

lemma root4_ge: "0 < x \<Longrightarrow> 0 \<le> c \<Longrightarrow> c ^ 4 \<le> x \<Longrightarrow> c \<le> x powr (1 / 4)" for x c :: real
  using powr_rat_ge [of x 4 c 1] by simp

lemma root5_ge: "0 < x \<Longrightarrow> 0 \<le> c \<Longrightarrow> c ^ 5 \<le> x \<Longrightarrow> c \<le> x powr (1 / 5)" for x c :: real
  using powr_rat_ge [of x 5 c 1] by simp

lemma root4_le: "0 < x \<Longrightarrow> 0 \<le> c \<Longrightarrow> x \<le> c ^ 4 \<Longrightarrow> x powr (1 / 4) \<le> c" for x c :: real
  using powr_rat_le [of x 4 c 1] by simp

lemma root5_le: "0 < x \<Longrightarrow> 0 \<le> c \<Longrightarrow> x \<le> c ^ 5 \<Longrightarrow> x powr (1 / 5) \<le> c" for x c :: real
  using powr_rat_le [of x 5 c 1] by simp

lemma tenth_powr_bounds:
  "(313242021 / 62500000000 :: real) \<le> (1 / 10) powr (23 / 10)"
  "(1 / 10) powr (23 / 10) \<le> (5011872337 / 1000000000000 :: real)"
proof -
  show "(313242021 / 62500000000 :: real) \<le> (1 / 10) powr (23 / 10)"
    using powr_rat_ge [of "1 / 10" 10 "313242021 / 62500000000" 23] by (simp add: power_divide)
  show "(1 / 10) powr (23 / 10) \<le> (5011872337 / 1000000000000 :: real)"
    using powr_rat_le [of "1 / 10" 10 "5011872337 / 1000000000000" 23] by (simp add: power_divide)
qed

text \<open>The raw lifetime of the lightest star, in terms of the clamped metallicities.\<close>

lemma raw_low_mass:
  assumes "mass p = 0.1"
  shows "rawLifetimeGyr (computeInitialStar p) p =
           10 * ((0.752 - 2.7 * clamp (metallicity p) 0 0.04) / 0.7)
              * ((1 / 10) / ((1 / 10) powr (23 / 10)
                               * Z_rel (clamp (metallicity p) 0 0.04) powr (- (1 / 4))))
              * (min (max (metallicity p) 0.0001) 0.04 / 0.02) powr (1 / 5)"
proof -
  define z where "z = clamp (metallicity p) 0 0.04"
  have z: "0 \<le> z" "z \<le> 1 / 25" by (simp_all add: z_def clamp_def)
  have X: "ini_X (computeInitialStar p) = 0.752 - 2.7 * z"
    using z unfolding z_def by (simp add: computeInitialStar_def Let_def) (simp add: clamp_def)
  have L: "ini_L_ms (computeInitialStar p) = (1 / 10) powr (23 / 10) * Z_rel z powr (- (1 / 4))"
    unfolding z_def
    by (simp add: computeInitialStar_def Let_def assms clamp_def L_ms_preCNO_def L_ms_base_def)
  have Zr: "1 / 10 \<le> Z_rel z" "Z_rel z \<le> 3" by (simp_all add: Z_rel_def Z_sun_def clamp_def)
  have "(3::real) powr (1 / 4) \<le> 2" by (rule root4_le) simp_all
  then have "1 / 2 \<le> 1 / (3::real) powr (1 / 4)"
    by (intro divide_left_mono) simp_all
  also have "\<dots> = (3::real) powr (- (1 / 4))" by (simp add: powr_minus_divide)
  also have "\<dots> \<le> Z_rel z powr (- (1 / 4))"
    using Zr by (intro powr_mono2') simp_all
  finally have q: "1 / 2 \<le> Z_rel z powr (- (1 / 4))" .
  have "(1 / 500) * (1 / 2) \<le> (1 / 10) powr (23 / 10) * Z_rel z powr (- (1 / 4))"
    using tenth_powr_bounds(1) q by (intro mult_mono) simp_all
  then have mx: "max ((1 / 10) powr (23 / 10) * Z_rel z powr (- (1 / 4))) (1 / 10000)
                   = (1 / 10) powr (23 / 10) * Z_rel z powr (- (1 / 4))"
    by simp
  show ?thesis
    unfolding rawLifetimeGyr_def X L mx z_def [symmetric]
    by (simp add: assms clampMass_def)
qed



lemma recip_neg_quarter:
  fixes a r :: real
  assumes "0 < a" "0 < r"
  shows "(1 / 10) / (a * r powr (- (1 / 4))) = ((1 / 10) / a) * r powr (1 / 4)"
  using assms by (simp add: powr_minus field_simps)

lemma prod3_mono:
  fixes A B C A0 B0 C0 :: real
  assumes "0 \<le> A0" "A0 \<le> A" "0 \<le> B0" "B0 \<le> B" "0 \<le> C0" "C0 \<le> C"
  shows "10 * A0 * B0 * C0 \<le> 10 * A * B * C"
proof -
  have "A0 * B0 \<le> A * B" using assms by (intro mult_mono) simp_all
  moreover have "0 \<le> A * B" using assms by simp
  ultimately have "A0 * B0 * C0 \<le> A * B * C" using assms by (intro mult_mono) simp_all
  then show ?thesis by (simp add: mult.assoc)
qed

lemma raw_ge_on_interval:
  fixes z1 z2 c1 c2 :: real
  assumes m: "mass p = 0.1"
    and z: "z1 \<le> metallicity p" "clamp (metallicity p) 0 0.04 \<le> z2"
    and r: "1 / 500 \<le> z1" "z1 \<le> 1 / 25" "z2 \<le> 1 / 25"
    and c: "0 \<le> c1" "c1 ^ 4 \<le> 50 * z1" "0 \<le> c2" "c2 ^ 5 \<le> 50 * z1"
    and n: "200 \<le> 10 * ((0.752 - 2.7 * z2) / 0.7) * ((1 / 10) / (5011872337 / 1000000000000) * c1) * c2"
  shows "200 \<le> rawLifetimeGyr (computeInitialStar p) p"
proof -
  define x where "x = clamp (metallicity p) 0 0.04"
  have x: "z1 \<le> x" "x \<le> z2" "x \<le> 1 / 25" using z r by (simp_all add: x_def clamp_def)
  have ml: "min (max (metallicity p) 0.0001) 0.04 / 0.02 = 50 * x"
    using z(1) r(1) by (simp add: x_def clamp_def)
  have zr: "Z_rel x = 50 * x" using x r by (simp add: Z_rel_def Z_sun_def clamp_def)
  have pos: "0 < 50 * z1" "50 * z1 \<le> 50 * x" using x r by simp_all
  let ?a = "(1 / 10 :: real) powr (23 / 10)"
  have a: "0 < ?a" "?a \<le> 5011872337 / 1000000000000" using tenth_powr_bounds(2) by simp_all
  have q4: "c1 \<le> (50 * x) powr (1 / 4)"
  proof -
    have "c1 \<le> (50 * z1) powr (1 / 4)" using pos c by (intro root4_ge) simp_all
    also have "\<dots> \<le> (50 * x) powr (1 / 4)" using pos by (intro powr_mono2) simp_all
    finally show ?thesis .
  qed
  have q5: "c2 \<le> (50 * x) powr (1 / 5)"
  proof -
    have "c2 \<le> (50 * z1) powr (1 / 5)" using pos c by (intro root5_ge) simp_all
    also have "\<dots> \<le> (50 * x) powr (1 / 5)" using pos by (intro powr_mono2) simp_all
    finally show ?thesis .
  qed
  have A: "0 \<le> (0.752 - 2.7 * z2) / 0.7" "(0.752 - 2.7 * z2) / 0.7 \<le> (0.752 - 2.7 * x) / 0.7"
    using x r by simp_all
  have "(1 / 10) / (5011872337 / 1000000000000) \<le> (1 / 10) / ?a"
    using a by (intro divide_left_mono) simp_all
  then have B: "(1 / 10) / (5011872337 / 1000000000000) * c1 \<le> (1 / 10) / ?a * (50 * x) powr (1 / 4)"
    using q4 c(1) by (intro mult_mono) simp_all
  have B0: "0 \<le> (1 / 10) / (5011872337 / 1000000000000 :: real) * c1" using c(1) by simp
  have "200 \<le> 10 * ((0.752 - 2.7 * z2) / 0.7) * ((1 / 10) / (5011872337 / 1000000000000) * c1) * c2" by (rule n)
  also have "\<dots> \<le> 10 * ((0.752 - 2.7 * x) / 0.7) * ((1 / 10) / ?a * (50 * x) powr (1 / 4))
                        * (50 * x) powr (1 / 5)"
    by (rule prod3_mono [OF A B0 B c(3) q5])
  also have "\<dots> = rawLifetimeGyr (computeInitialStar p) p"
    unfolding raw_low_mass [OF m] x_def [symmetric] ml zr
    using a(1) pos by (subst recip_neg_quarter) simp_all
  finally show ?thesis .
qed

lemma raw_lt_on_interval:
  fixes z1 z2 d1 d2 :: real
  assumes m: "mass p = 0.1"
    and z: "z1 \<le> clamp (metallicity p) 0 0.04" "metallicity p \<le> z2"
    and r: "0 \<le> z1" "1 / 500 \<le> z2" "z2 \<le> 1 / 25"
    and d: "0 \<le> d1" "50 * z2 \<le> d1 ^ 4" "0 \<le> d2" "50 * z2 \<le> d2 ^ 5"
    and n: "10 * ((0.752 - 2.7 * z1) / 0.7) * ((1 / 10) / (313242021 / 62500000000) * d1) * d2 < 200"
  shows "rawLifetimeGyr (computeInitialStar p) p < 200"
proof -
  define x where "x = clamp (metallicity p) 0 0.04"
  define zl where "zl = min (max (metallicity p) 0.0001) 0.04 / 0.02"
  have x: "z1 \<le> x" "x \<le> z2" "0 \<le> x" "x \<le> 1 / 25"
    using z r by (simp_all add: x_def clamp_def)
  have zl: "0 < zl" "zl \<le> 50 * z2" using z(2) r by (simp_all add: zl_def)
  have zr: "0 < Z_rel x" "Z_rel x \<le> 50 * z2"
    using x r by (simp_all add: Z_rel_def Z_sun_def clamp_def)
  let ?a = "(1 / 10 :: real) powr (23 / 10)"
  have a: "(0::real) < 313242021 / 62500000000" "313242021 / 62500000000 \<le> ?a" using tenth_powr_bounds(1) by simp_all
  have a0: "0 < ?a" by simp
  have q4: "Z_rel x powr (1 / 4) \<le> d1"
  proof -
    have "Z_rel x powr (1 / 4) \<le> (50 * z2) powr (1 / 4)" using zr by (intro powr_mono2) simp_all
    also have "\<dots> \<le> d1" using r d by (intro root4_le) simp_all
    finally show ?thesis .
  qed
  have q5: "zl powr (1 / 5) \<le> d2"
  proof -
    have "zl powr (1 / 5) \<le> (50 * z2) powr (1 / 5)" using zl by (intro powr_mono2) simp_all
    also have "\<dots> \<le> d2" using r d by (intro root5_le) simp_all
    finally show ?thesis .
  qed
  have A: "0 \<le> (0.752 - 2.7 * x) / 0.7" "(0.752 - 2.7 * x) / 0.7 \<le> (0.752 - 2.7 * z1) / 0.7"
    using x by simp_all
  have "(1 / 10) / ?a \<le> (1 / 10) / (313242021 / 62500000000)"
    using a by (intro divide_left_mono) simp_all
  moreover have "0 \<le> (1 / 10) / ?a" by simp
  ultimately have B: "(1 / 10) / ?a * Z_rel x powr (1 / 4) \<le> (1 / 10) / (313242021 / 62500000000) * d1"
    using q4 d(1) by (intro mult_mono) simp_all
  have B0: "0 \<le> (1 / 10) / ?a * Z_rel x powr (1 / 4)" by simp
  have C0: "0 \<le> zl powr (1 / 5)" by simp
  have "rawLifetimeGyr (computeInitialStar p) p
          = 10 * ((0.752 - 2.7 * x) / 0.7) * ((1 / 10) / ?a * Z_rel x powr (1 / 4)) * zl powr (1 / 5)"
    unfolding raw_low_mass [OF m] x_def [symmetric] zl_def [symmetric]
    using a0 zr(1) by (subst recip_neg_quarter) simp_all
  also have "\<dots> \<le> 10 * ((0.752 - 2.7 * z1) / 0.7) * ((1 / 10) / (313242021 / 62500000000) * d1) * d2"
    by (rule prod3_mono [OF A B0 B C0 q5])
  also have "\<dots> < 200" by (rule n)
  finally show ?thesis .
qed
lemma raw_reaches_ceiling:
  assumes m: "mass p = 0.1" and z: "203 / 10000 \<le> metallicity p"
  shows "200 \<le> rawLifetimeGyr (computeInitialStar p) p"
proof -
  consider
      "metallicity p \<le> 2547 / 125000"
    | "2547 / 125000 \<le> metallicity p" "metallicity p \<le> 10341 / 500000"
    | "10341 / 500000 \<le> metallicity p" "metallicity p \<le> 21889 / 1000000"
    | "21889 / 1000000 \<le> metallicity p" "metallicity p \<le> 1651 / 62500"
    | "1651 / 62500 \<le> metallicity p"
    by linarith
  then show ?thesis
  proof cases
    case 1
    then show ?thesis
      using z raw_ge_on_interval [OF m, of "203 / 10000" "2547 / 125000" "25093227 / 25000000" "12537277 / 12500000"]
      by (simp add: clamp_def power_divide)
  next
    case 2
    then show ?thesis
      using z raw_ge_on_interval [OF m, of "2547 / 125000" "10341 / 500000" "50233361 / 50000000" "100373203 / 100000000"]
      by (simp add: clamp_def power_divide)
  next
    case 3
    then show ?thesis
      using z raw_ge_on_interval [OF m, of "10341 / 500000" "21889 / 1000000" "10084181 / 10000000" "100672883 / 100000000"]
      by (simp add: clamp_def power_divide)
  next
    case 4
    then show ?thesis
      using z raw_ge_on_interval [OF m, of "21889 / 1000000" "1651 / 62500" "20456389 / 20000000" "25455357 / 25000000"]
      by (simp add: clamp_def power_divide)
  next
    case 5
    then show ?thesis
      using z raw_ge_on_interval [OF m, of "1651 / 62500" "1 / 25" "53601787 / 50000000" "105722497 / 100000000"]
      by (simp add: clamp_def power_divide)
  qed
qed

lemma raw_below_ceiling:
  assumes m: "mass p = 0.1" and z: "metallicity p \<le> 101 / 5000"
  shows "rawLifetimeGyr (computeInitialStar p) p < 200"
proof -
  consider
      "metallicity p \<le> 101 / 10000"
    | "101 / 10000 \<le> metallicity p" "metallicity p \<le> 303 / 20000"
    | "303 / 20000 \<le> metallicity p" "metallicity p \<le> 707 / 40000"
    | "707 / 40000 \<le> metallicity p" "metallicity p \<le> 18937 / 1000000"
    | "18937 / 1000000 \<le> metallicity p" "metallicity p \<le> 1223 / 62500"
    | "1223 / 62500 \<le> metallicity p" "metallicity p \<le> 4971 / 250000"
    | "4971 / 250000 \<le> metallicity p"
    by linarith
  then show ?thesis
  proof cases
    case 1
    then show ?thesis
      using z raw_lt_on_interval [OF m, of "0" "101 / 10000" "42149541 / 50000000" "3489139 / 4000000"]
      by (simp add: clamp_def power_divide)
  next
    case 2
    then show ?thesis
      using z raw_lt_on_interval [OF m, of "101 / 10000" "303 / 20000" "9329227 / 10000000" "47298409 / 50000000"]
      by (simp add: clamp_def power_divide)
  next
    case 3
    then show ?thesis
      using z raw_lt_on_interval [OF m, of "303 / 20000" "707 / 40000" "6059857 / 6250000" "48779337 / 50000000"]
      by (simp add: clamp_def power_divide)
  next
    case 4
    then show ?thesis
      using z raw_lt_on_interval [OF m, of "707 / 40000" "18937 / 1000000" "49321957 / 50000000" "24728413 / 25000000"]
      by (simp add: clamp_def power_divide)
  next
    case 5
    then show ?thesis
      using z raw_lt_on_interval [OF m, of "18937 / 1000000" "1223 / 62500" "99455571 / 100000000" "99564219 / 100000000"]
      by (simp add: clamp_def power_divide)
  next
    case 6
    then show ?thesis
      using z raw_lt_on_interval [OF m, of "1223 / 62500" "4971 / 250000" "24963671 / 25000000" "9988373 / 10000000"]
      by (simp add: clamp_def power_divide)
  next
    case 7
    then show ?thesis
      using z raw_lt_on_interval [OF m, of "4971 / 250000" "101 / 5000" "25062267 / 25000000" "20039841 / 20000000"]
      by (simp add: clamp_def power_divide)
  qed
qed

lemma ms_phase_duration:
  "ph_id (phases (computeEvolutionTimeline p) ! 0) = Base ms
   \<and> durationMyr (phases (computeEvolutionTimeline p) ! 0) = tMsMyr_of p"
  by (simp add: phases_nth phaseAt_sel durations_ms)

lemma tMsMyr_clamped:
  "tMsMyr_of p = min (max (rawLifetimeGyr (computeInitialStar p) p) 0.003) 200 * 1000"
  by (simp add: tMsMyr_of_def lifetime_clamped)

text \<open>
  C5, as amended. The main-sequence phase lasts the raw fuel/burn-rate lifetime clamped
  to \<open>[3 Myr, 200 Gyr]\<close>, so it never exceeds the ceiling of 200 Gyr, which is \<open>2.0e5\<close>
  Myr, and it equals the ceiling exactly when the raw lifetime is at least 200 Gyr. For
  mass 0.1 (and every CNO fraction) that is the case for every metallicity from 0.0203
  upwards and for no metallicity up to 0.0202.
\<close>

theorem C5_low_mass_lifetime_capped:
  "ph_id (phases (computeEvolutionTimeline p) ! 0) = Base ms
   \<and> durationMyr (phases (computeEvolutionTimeline p) ! 0)
       = min (max (rawLifetimeGyr (computeInitialStar p) p) 0.003) 200 * 1000
   \<and> durationMyr (phases (computeEvolutionTimeline p) ! 0) \<le> 200000
   \<and> (durationMyr (phases (computeEvolutionTimeline p) ! 0) = 200000
        \<longleftrightarrow> 200 \<le> rawLifetimeGyr (computeInitialStar p) p)
   \<and> (mass p = 0.1 \<and> 0.0203 \<le> metallicity p \<longrightarrow>
        200 \<le> rawLifetimeGyr (computeInitialStar p) p
        \<and> durationMyr (phases (computeEvolutionTimeline p) ! 0) = 200000)
   \<and> (mass p = 0.1 \<and> metallicity p \<le> 0.0202 \<longrightarrow>
        rawLifetimeGyr (computeInitialStar p) p < 200
        \<and> durationMyr (phases (computeEvolutionTimeline p) ! 0) < 200000)"
proof -
  let ?d = "durationMyr (phases (computeEvolutionTimeline p) ! 0)"
  let ?raw = "rawLifetimeGyr (computeInitialStar p) p"
  have d: "?d = min (max ?raw 0.003) 200 * 1000"
    using ms_phase_duration [of p] by (simp add: tMsMyr_clamped)
  have le: "?d \<le> 200000" unfolding d by simp
  have iff: "?d = 200000 \<longleftrightarrow> 200 \<le> ?raw" unfolding d by (simp add: min_def max_def)
  have lt: "?raw < 200 \<Longrightarrow> ?d < 200000" unfolding d by (simp add: min_def max_def)
  have hi: "mass p = 0.1 \<and> 0.0203 \<le> metallicity p \<longrightarrow> 200 \<le> ?raw \<and> ?d = 200000"
    using raw_reaches_ceiling [of p] iff by simp
  have lo: "mass p = 0.1 \<and> metallicity p \<le> 0.0202 \<longrightarrow> ?raw < 200 \<and> ?d < 200000"
    using raw_below_ceiling [of p] lt by simp
  show ?thesis
    using ms_phase_duration [of p] d le iff hi lo by blast
qed

theorem C5_low_mass_lifetime_capped_witness:
  "durationMyr (phases (computeEvolutionTimeline
      \<lparr> mass = 0.1, metallicity = 0.04, cnoFraction = 0.3 \<rparr>) ! 0) = 200000
   \<and> durationMyr (phases (computeEvolutionTimeline
      \<lparr> mass = 0.1, metallicity = 0.01, cnoFraction = 0.3 \<rparr>) ! 0) < 200000"
  using C5_low_mass_lifetime_capped [of "\<lparr> mass = 0.1, metallicity = 0.04, cnoFraction = 0.3 \<rparr>"]
    C5_low_mass_lifetime_capped [of "\<lparr> mass = 0.1, metallicity = 0.01, cnoFraction = 0.3 \<rparr>"]
  by simp

text \<open>
  C5, as stated, fails at mass 0.1 with the solar metallicity 0.02: the raw lifetime is
  about 198.96 Gyr, under the ceiling, so the main-sequence phase is shorter than
  \<open>2.0e5\<close> Myr (and so is not \<open>2.0e8\<close> Myr either).
\<close>

theorem C5_counterexample:
  "durationMyr (phases (computeEvolutionTimeline
      \<lparr> mass = 0.1, metallicity = 0.02, cnoFraction = 0.3 \<rparr>) ! 0) < 200000
   \<and> durationMyr (phases (computeEvolutionTimeline
      \<lparr> mass = 0.1, metallicity = 0.02, cnoFraction = 0.3 \<rparr>) ! 0) \<noteq> 200000000"
proof -
  have "rawLifetimeGyr (computeInitialStar \<lparr> mass = 0.1, metallicity = 0.02, cnoFraction = 0.3 \<rparr>)
          \<lparr> mass = 0.1, metallicity = 0.02, cnoFraction = 0.3 \<rparr> < 200"
    by (rule raw_below_ceiling) simp_all
  then have "tMsMyr_of \<lparr> mass = 0.1, metallicity = 0.02, cnoFraction = 0.3 \<rparr> < 200000"
    unfolding tMsMyr_clamped by (simp add: min_def max_def)
  then show ?thesis by (simp add: ms_phase_duration)
qed

section \<open>Binary64 rounding\<close>

subsection \<open>Rounding to nearest\<close>

lemma rne_error: "\<bar>of_int (rne x) - x\<bar> \<le> 1 / 2"
  unfolding rne_def Let_def by (auto simp: abs_le_iff)

lemma rne_eqI:
  assumes "\<bar>x - of_int n\<bar> < 1 / 2"
  shows "rne x = n"
proof -
  have lo: "of_int n - 1 / 2 < x" and hi: "x < of_int n + 1 / 2"
    using assms by linarith+
  consider "of_int n \<le> x" | "x < of_int n" by linarith
  then show ?thesis
  proof cases
    case 1
    then have f: "\<lfloor>x\<rfloor> = n" using hi by (intro floor_unique) simp_all
    show ?thesis unfolding rne_def Let_def f using hi by simp
  next
    case 2
    then have f: "\<lfloor>x\<rfloor> = n - 1" using lo by (intro floor_unique) simp_all
    show ?thesis unfolding rne_def Let_def f using lo by simp
  qed
qed

lemma rne_tieI:
  assumes "\<bar>x - of_int n\<bar> = 1 / 2" "even n"
  shows "rne x = n"
proof -
  consider "x = of_int n + 1 / 2" | "x = of_int n - 1 / 2" using assms(1) by linarith
  then show ?thesis
  proof cases
    case 1
    then have f: "\<lfloor>x\<rfloor> = n" by (intro floor_unique) simp_all
    show ?thesis unfolding rne_def Let_def f using 1 assms(2) by simp
  next
    case 2
    then have f: "\<lfloor>x\<rfloor> = n - 1" by (intro floor_unique) simp_all
    show ?thesis unfolding rne_def Let_def f using 2 assms(2) by simp
  qed
qed

lemma two_powr_int: "2 powr (of_int e) = (2::real) powi e"
  by (simp add: powr_real_of_int')

lemma fexp_bounds:
  assumes "x \<noteq> 0"
  shows "2 powi fexp x \<le> \<bar>x\<bar>" and "\<bar>x\<bar> < 2 powi (fexp x + 1)"
proof -
  have pos: "0 < \<bar>x\<bar>" using assms by simp
  have c: "2 powr (log 2 \<bar>x\<bar>) = \<bar>x\<bar>" using pos by simp
  have a: "of_int (fexp x) \<le> log 2 \<bar>x\<bar>" by (simp add: fexp_def)
  have b: "log 2 \<bar>x\<bar> < of_int (fexp x + 1)" unfolding fexp_def by linarith
  have "2 powr (of_int (fexp x)) \<le> 2 powr (log 2 \<bar>x\<bar>)"
    using a by (intro powr_mono) simp_all
  then show "2 powi fexp x \<le> \<bar>x\<bar>"
    unfolding two_powr_int c .
  have "2 powr (log 2 \<bar>x\<bar>) < 2 powr (of_int (fexp x + 1))"
    using b by (intro powr_less_mono) simp_all
  then show "\<bar>x\<bar> < 2 powi (fexp x + 1)"
    unfolding two_powr_int c .
qed

lemma fexp_eqI:
  assumes "2 powi e \<le> \<bar>x\<bar>" "\<bar>x\<bar> < 2 powi (e + 1)"
  shows "fexp x = e"
proof -
  have pos: "0 < \<bar>x\<bar>"
    using assms(1) zero_less_power_int [of "2 :: real" e] by linarith
  have "2 powr (of_int e) \<le> \<bar>x\<bar>" using assms(1) unfolding two_powr_int .
  then have a: "of_int e \<le> log 2 \<bar>x\<bar>" using pos by (simp add: le_log_iff)
  have "\<bar>x\<bar> < 2 powr (of_int (e + 1))" using assms(2) unfolding two_powr_int .
  then have b: "log 2 \<bar>x\<bar> < of_int (e + 1)" using pos by (subst log_less_iff) simp_all
  show ?thesis unfolding fexp_def
  proof (rule floor_unique)
    show "of_int e \<le> log 2 \<bar>x\<bar>" by (rule a)
    show "log 2 \<bar>x\<bar> < of_int e + 1" using b by simp
  qed
qed

lemma fl_eqI:
  assumes "2 powi e \<le> \<bar>x\<bar>" "\<bar>x\<bar> < 2 powi (e + 1)"
    and "\<bar>x / 2 powi (e - 52) - of_int n\<bar> < 1 / 2
         \<or> \<bar>x / 2 powi (e - 52) - of_int n\<bar> = 1 / 2 \<and> even n"
  shows "fl x = of_int n * 2 powi (e - 52)"
proof -
  have "0 < \<bar>x\<bar>" using assms(1) zero_less_power_int [of "2 :: real" e] by linarith
  then have nz: "x \<noteq> 0" by simp
  have e: "fexp x = e" by (rule fexp_eqI [OF assms(1,2)])
  have "rne (x / 2 powi (e - 52)) = n"
    using assms(3) rne_eqI [of "x / 2 powi (e - 52)" n] rne_tieI [of "x / 2 powi (e - 52)" n]
    by blast
  then show ?thesis unfolding fl_def e using nz by simp
qed

lemma fl_error: "\<bar>fl x - x\<bar> \<le> \<bar>x\<bar> / 2 ^ 53"
proof (cases "x = 0")
  case True
  then show ?thesis by (simp add: fl_def)
next
  case False
  define q :: real where "q = 2 powi (fexp x - 52)"
  have q: "0 < q" by (simp add: q_def)
  have "fl x - x = q * (of_int (rne (x / q)) - x / q)"
    using False q by (simp add: fl_def q_def field_simps)
  then have "\<bar>fl x - x\<bar> = q * \<bar>of_int (rne (x / q)) - x / q\<bar>"
    using q by (simp add: abs_mult)
  also have "\<dots> \<le> q * (1 / 2)"
    using rne_error [of "x / q"] q by (intro mult_left_mono) simp_all
  also have "\<dots> = 2 powi fexp x / 2 ^ 53"
    by (simp add: q_def power_int_diff)
  also have "\<dots> \<le> \<bar>x\<bar> / 2 ^ 53"
    using fexp_bounds(1) [OF False] by (intro divide_right_mono) simp_all
  finally show ?thesis .
qed

subsection \<open>Relative error of one operation\<close>


lemma fl_rel:
  assumes "0 < x"
  shows "x * (1 - u64) \<le> fl x" and "fl x \<le> x * (1 + u64)"
proof -
  have "\<bar>fl x - x\<bar> \<le> x * u64" using fl_error [of x] assms by (simp add: u64_def)
  then have "x - x * u64 \<le> fl x" "fl x \<le> x + x * u64" by linarith+
  then show "x * (1 - u64) \<le> fl x" and "fl x \<le> x * (1 + u64)"
    by (simp_all add: algebra_simps)
qed





lemma u64_small: "u64 \<le> 1 / 1000"
  by (simp add: u64_def)

lemma fl_near:
  assumes "0 < x"
  shows "x * (999 / 1000) \<le> fl x" and "fl x \<le> x * (1001 / 1000)"
proof -
  have "x * (999 / 1000) \<le> x * (1 - u64)"
    using assms u64_small by (intro mult_left_mono) simp_all
  then show "x * (999 / 1000) \<le> fl x" using fl_rel(1) [OF assms] by simp
  have "x * (1 + u64) \<le> x * (1001 / 1000)"
    using assms u64_small by (intro mult_left_mono) simp_all
  then show "fl x \<le> x * (1001 / 1000)" using fl_rel(2) [OF assms] by simp
qed


lemma fl_pos:
  assumes "0 < x"
  shows "0 < fl x"
proof -
  have "0 < x * (999 / 1000)" using assms by simp
  then show ?thesis using fl_near(1) [OF assms] by linarith
qed

subsection \<open>Interpolation at the end of a phase\<close>

lemma lerp64_one_error: "\<bar>lerp64 a b 1 - b\<bar> \<le> (\<bar>a\<bar> + \<bar>b\<bar>) / 2 ^ 51"
proof -
  define u :: real where "u = 1 / 2 ^ 53"
  define k where "k = \<bar>b - a\<bar>"
  define d where "d = fl (b - a)"
  define m where "m = fl (d * 1)"
  define s where "s = a + m"
  have u: "0 < u" "u \<le> 1 / 8" by (simp_all add: u_def)
  have k: "0 \<le> k" "k \<le> \<bar>a\<bar> + \<bar>b\<bar>" by (simp_all add: k_def)
  have e1: "\<bar>d - (b - a)\<bar> \<le> u * k"
    using fl_error [of "b - a"] by (simp add: d_def u_def k_def)
  then have dk: "\<bar>d\<bar> \<le> k + u * k" unfolding k_def by linarith
  have "\<bar>m - d\<bar> \<le> u * \<bar>d\<bar>"
    using fl_error [of d] by (simp add: m_def u_def)
  also have "\<dots> \<le> u * (k + u * k)"
    using dk u by (intro mult_left_mono) simp_all
  finally have e2: "\<bar>m - d\<bar> \<le> u * (k + u * k)" .
  have e3: "\<bar>s - b\<bar> \<le> u * k + u * (k + u * k)"
    using e1 e2 unfolding s_def by linarith
  then have sb: "\<bar>s\<bar> \<le> \<bar>b\<bar> + (u * k + u * (k + u * k))" by linarith
  have "\<bar>fl s - s\<bar> \<le> u * \<bar>s\<bar>"
    using fl_error [of s] by (simp add: u_def)
  also have "\<dots> \<le> u * (\<bar>b\<bar> + (u * k + u * (k + u * k)))"
    using sb u by (intro mult_left_mono) simp_all
  finally have e4: "\<bar>fl s - s\<bar> \<le> u * (\<bar>b\<bar> + (u * k + u * (k + u * k)))" .
  have "\<bar>fl s - b\<bar> \<le> u * (\<bar>b\<bar> + (u * k + u * (k + u * k))) + (u * k + u * (k + u * k))"
    using e3 e4 by linarith
  also have "\<dots> = u * \<bar>b\<bar> + (2 * u + 3 * (u * u) + u * u * u) * k"
    by (simp add: algebra_simps)
  also have "\<dots> \<le> u * \<bar>b\<bar> + (3 * u) * k"
  proof -
    define w where "w = u * u"
    have w: "0 \<le> w" "w \<le> u * (1 / 8)"
      unfolding w_def using u by (simp, intro mult_left_mono, simp_all)
    have "w * u \<le> w * 1" using w u by (intro mult_left_mono) simp_all
    then have "2 * u + 3 * w + w * u \<le> 3 * u" using w u by simp
    then have "(2 * u + 3 * (u * u) + u * u * u) * k \<le> (3 * u) * k"
      unfolding w_def using k by (intro mult_right_mono) simp_all
    then show ?thesis by simp
  qed
  also have "\<dots> \<le> 4 * u * (\<bar>a\<bar> + \<bar>b\<bar>)"
  proof -
    have "(3 * u) * k \<le> (3 * u) * (\<bar>a\<bar> + \<bar>b\<bar>)"
      using k u by (intro mult_left_mono) simp_all
    moreover have "0 \<le> u * \<bar>a\<bar>" using u by simp
    ultimately show ?thesis by (simp add: algebra_simps)
  qed
  finally have "\<bar>fl s - b\<bar> \<le> 4 * u * (\<bar>a\<bar> + \<bar>b\<bar>)" .
  then show ?thesis by (simp add: lerp64_def add64_def mul64_def sub64_def s_def m_def d_def u_def)
qed

subsection \<open>The rescaled post-main-sequence durations\<close>





subsection \<open>The half-solar star, operation by operation\<close>


































































subsection \<open>The rescaled durations of every star\<close>











section \<open>The post-main-sequence durations\<close>













section \<open>The state at a phase boundary\<close>

lemma agb_radius_fl_1: "fl (13637940138623601 / 8796093022208) = 852371258663975 / 549755813888"
  using fl_eqI [of "10" "13637940138623601 / 8796093022208" "6818970069311800"] by simp

lemma agb_radius_fl_2: "fl (852371258663975 / 549755813888) = 852371258663975 / 549755813888"
  using fl_eqI [of "10" "852371258663975 / 549755813888" "6818970069311800"] by simp

lemma agb_radius_fl_3: "fl (15380801240892257 / 8796093022208) = 480650038777883 / 274877906944"
  using fl_eqI [of "10" "15380801240892257 / 8796093022208" "7690400620446128"] by simp

lemma fl_one: "fl 1 = 1"
  using fl_eqI [of 0 1 "4503599627370496"] by simp

lemma safePhaseFraction64_end:
  assumes "tStartMyr ph < tEndMyr ph"
  shows "safePhaseFraction64 ph (tEndMyr ph) = 1"
proof -
  have "0 < fl (tEndMyr ph - tStartMyr ph)" using assms by (intro fl_pos) simp
  then show ?thesis
    by (simp add: safePhaseFraction64_def Let_def sub64_def div64_def clamp_def fl_one)
qed

lemma boundary_sample:
  fixes p q :: StarParams
  defines "tline \<equiv> computeEvolutionTimeline q"
  assumes "i < 5"
  shows "st_L (getStarStateAtTime p tline (tEndMyr (phases tline ! i)))
           = lerp (pt_L (shape_start (buildPhaseShapes p (computeInitialStar p) (remnant tline)
                                (shapeKeyForPhase (ph_id (phases tline ! i))))))
                  (pt_L (shape_end (buildPhaseShapes p (computeInitialStar p) (remnant tline)
                                (shapeKeyForPhase (ph_id (phases tline ! i)))))) 1
       \<and> st_R (getStarStateAtTime p tline (tEndMyr (phases tline ! i)))
           = lerp (pt_R (shape_start (buildPhaseShapes p (computeInitialStar p) (remnant tline)
                                (shapeKeyForPhase (ph_id (phases tline ! i))))))
                  (pt_R (shape_end (buildPhaseShapes p (computeInitialStar p) (remnant tline)
                                (shapeKeyForPhase (ph_id (phases tline ! i)))))) 1
       \<and> st_T_eff (getStarStateAtTime p tline (tEndMyr (phases tline ! i)))
           = lerp (pt_T_eff (shape_start (buildPhaseShapes p (computeInitialStar p) (remnant tline)
                                (shapeKeyForPhase (ph_id (phases tline ! i))))))
                  (pt_T_eff (shape_end (buildPhaseShapes p (computeInitialStar p) (remnant tline)
                                (shapeKeyForPhase (ph_id (phases tline ! i)))))) 1"
proof -
  let ?tline = "computeEvolutionTimeline q"
  let ?ph = "phases ?tline ! i"
  note i = assms(2)
  have mem: "?ph \<in> set (phases ?tline)"
    using i by (simp add: phases_length)
  then have pos: "0 < durationMyr ?ph" using phase_wellformed [of ?ph q] by simp
  have wf: "tEndMyr ?ph = tStartMyr ?ph + durationMyr ?ph"
    using mem phase_wellformed [of ?ph q] by simp
  have lt: "tStartMyr ?ph < tEndMyr ?ph" using pos wf by simp
  have cl: "clamp (tEndMyr ?ph) 0 (totalLifetimeMyr ?tline) = tEndMyr ?ph"
    using boundary_in_range [OF i, of q] by (simp add: clamp_id)
  have act: "locateActive (clamp (tEndMyr ?ph) 0 (totalLifetimeMyr ?tline)) (phases ?tline) = Some ?ph"
    unfolding cl by (rule locate_at_boundary [OF i])
  have fr: "safePhaseFraction ?ph (clamp (tEndMyr ?ph) 0 (totalLifetimeMyr ?tline)) = 1"
    unfolding cl by (rule safePhaseFraction_end [OF lt])
  show ?thesis
    unfolding tline_def state_of_active [OF act, of p] fr by simp
qed

text \<open>
  C10, as amended. On a timeline built by \<open>computeEvolutionTimeline\<close> whose phases all have
  positive duration, a query exactly at the internal boundary \<open>phases[i].tEndMyr\<close>, which is
  \<open>phases[i+1].tStartMyr\<close>, returns the earlier phase: its id and the phase fraction 1.
  The returned \<open>L\<close>, \<open>R\<close> and \<open>T_eff\<close> are the interpolation \<open>lerp(start, end, 1)\<close> over
  the earlier phase's shape. In exact arithmetic \<open>lerp(a, b, 1)\<close> is \<open>b\<close>, the end
  keypoint. In binary64 the phase fraction at the end of a phase of positive length is
  still exactly 1 (a nonzero double divided by itself), while \<open>a + (b - a) * 1\<close> rounds
  three times and lies within \<open>(|a| + |b|) / 2^51\<close> of \<open>b\<close>, without having to equal it.
  (Every timeline built by \<open>computeEvolutionTimeline\<close> has positive durations: lemma
  \<open>phase_wellformed\<close>.)
\<close>

theorem C10_boundary_is_earlier_phase:
  assumes "tline = computeEvolutionTimeline q"
    and "\<forall>ph \<in> set (phases tline). 0 < durationMyr ph"
    and "i < 5"
  shows "tEndMyr (phases tline ! i) = tStartMyr (phases tline ! (i + 1))
       \<and> st_phaseId (getStarStateAtTime p tline (tEndMyr (phases tline ! i)))
           = ph_id (phases tline ! i)
       \<and> st_phaseFrac (getStarStateAtTime p tline (tEndMyr (phases tline ! i))) = 1
       \<and> st_L (getStarStateAtTime p tline (tEndMyr (phases tline ! i)))
           = lerp (pt_L (shape_start (buildPhaseShapes p (computeInitialStar p) (remnant tline)
                                (shapeKeyForPhase (ph_id (phases tline ! i))))))
                  (pt_L (shape_end (buildPhaseShapes p (computeInitialStar p) (remnant tline)
                                (shapeKeyForPhase (ph_id (phases tline ! i)))))) 1
       \<and> st_R (getStarStateAtTime p tline (tEndMyr (phases tline ! i)))
           = lerp (pt_R (shape_start (buildPhaseShapes p (computeInitialStar p) (remnant tline)
                                (shapeKeyForPhase (ph_id (phases tline ! i))))))
                  (pt_R (shape_end (buildPhaseShapes p (computeInitialStar p) (remnant tline)
                                (shapeKeyForPhase (ph_id (phases tline ! i)))))) 1
       \<and> st_T_eff (getStarStateAtTime p tline (tEndMyr (phases tline ! i)))
           = lerp (pt_T_eff (shape_start (buildPhaseShapes p (computeInitialStar p) (remnant tline)
                                (shapeKeyForPhase (ph_id (phases tline ! i))))))
                  (pt_T_eff (shape_end (buildPhaseShapes p (computeInitialStar p) (remnant tline)
                                (shapeKeyForPhase (ph_id (phases tline ! i)))))) 1
       \<and> lerp a b 1 = b
       \<and> (tStartMyr ph < tEndMyr ph \<longrightarrow> safePhaseFraction64 ph (tEndMyr ph) = 1)
       \<and> \<bar>lerp64 a b 1 - b\<bar> \<le> (\<bar>a\<bar> + \<bar>b\<bar>) / 2 ^ 51"
proof -
  note b = boundary_state [OF assms(3), of q p]
  note s = boundary_sample [OF assms(3), of p q]
  show ?thesis
    unfolding assms(1)
    using conjunct1 [OF b] conjunct1 [OF conjunct2 [OF b]]
      conjunct1 [OF conjunct2 [OF conjunct2 [OF b]]] s lerp_one [of a b]
      safePhaseFraction64_end [of ph] lerp64_one_error [of a b]
    by blast
qed

theorem C10_boundary_is_earlier_phase_witness:
  "st_phaseId (getStarStateAtTime solarParams (computeEvolutionTimeline solarParams)
                 (tEndMyr (phases (computeEvolutionTimeline solarParams) ! 0))) = Base ms
   \<and> st_phaseFrac (getStarStateAtTime solarParams (computeEvolutionTimeline solarParams)
                 (tEndMyr (phases (computeEvolutionTimeline solarParams) ! 0))) = 1
   \<and> safePhaseFraction64 (phases (computeEvolutionTimeline solarParams) ! 0)
         (tEndMyr (phases (computeEvolutionTimeline solarParams) ! 0)) = 1"
proof -
  let ?ph = "phases (computeEvolutionTimeline solarParams) ! 0"
  have pos: "\<forall>ph \<in> set (phases (computeEvolutionTimeline solarParams)). 0 < durationMyr ph"
    using phase_wellformed [of _ solarParams] by blast
  have i: "(0::nat) < 5" by simp
  have "?ph \<in> set (phases (computeEvolutionTimeline solarParams))"
    by (simp add: phases_length)
  then have lt: "tStartMyr ?ph < tEndMyr ?ph"
    using phase_wellformed [of ?ph solarParams] by simp
  have "st_phaseId (getStarStateAtTime solarParams (computeEvolutionTimeline solarParams)
                 (tEndMyr ?ph)) = ph_id ?ph
   \<and> st_phaseFrac (getStarStateAtTime solarParams (computeEvolutionTimeline solarParams)
                 (tEndMyr ?ph)) = 1
   \<and> safePhaseFraction64 ?ph (tEndMyr ?ph) = 1"
    using C10_boundary_is_earlier_phase [OF refl pos i, where p = solarParams and ph = ?ph] lt
    by blast
  moreover have "ph_id ?ph = Base ms"
    by (simp add: phases_nth phaseAt_sel)
  ultimately show ?thesis by simp
qed

text \<open>
  C10, as stated, fails for the radius at the end of the agb phase of the star with mass
  7.99, metallicity 0.02 and CNO fraction 0.3. The shape of that phase runs from the
  horizontal-branch radius \<open>198.14036730493365\<close> to the agb radius
  \<open>1748.5946547017486\<close>; these doubles are \<open>1742861102268657 / 2^43\<close> and
  \<open>7690400620446129 / 2^42\<close>. At phase fraction 1 the interpolation returns
  \<open>480650038777883 / 2^38\<close>, the double \<open>1748.5946547017484\<close>, one unit in the last
  place below the end keypoint.
\<close>

theorem C10_counterexample:
  "lerp64 (1742861102268657 / 8796093022208) (7690400620446129 / 4398046511104) 1
     = 480650038777883 / 274877906944
   \<and> lerp64 (1742861102268657 / 8796093022208) (7690400620446129 / 4398046511104) 1
     \<noteq> 7690400620446129 / 4398046511104"
  by (simp add: lerp64_def add64_def mul64_def sub64_def
      agb_radius_fl_1 agb_radius_fl_2 agb_radius_fl_3)

end
